theory Spec2Isabelle
  imports Complex_Main
begin

section \<open>Jump-flood outline effects of the scene viewer\<close>

text \<open>
  The viewer draws an outline around the selected object with two GPU effects:
  \<^item> \<open>JumpFloodEffect\<close>: a coarse gating mask, a seed pass, a jump-flood loop over
    ping-ponged float targets and a compositing pass;
  \<^item> \<open>OutlineEffect\<close>: a silhouette mask dilated once per pixel of thickness and composited as a ring.

  JavaScript numbers and GLSL floats are modelled as reals, GLSL \<open>int\<close> and \<open>ivec2\<close> as
  integers. A fragment shader is a function of the fragment's coordinate that returns the
  colour written, or \<open>None\<close> when the fragment is discarded.
\<close>

subsection \<open>GLSL values and built-in functions\<close>

datatype vec4 = Vec4 (vx: real) (vy: real) (vz: real) (vw: real)

datatype vec3 = Vec3 (x3: real) (y3: real) (z3: real)

type_synonym vec2 = "real \<times> real"

type_synonym ivec2 = "int \<times> int"

text \<open>The swizzle \<open>.rgb\<close> of a four-component value.\<close>

definition rgb :: "vec4 \<Rightarrow> vec3" where
  "rgb c = Vec3 (vx c) (vy c) (vz c)"

text \<open>
  The built-ins follow the GLSL ES 3.00 specification: \<open>sign\<close> is 1, 0 or -1; \<open>step\<close> is 0
  below the edge and 1 from it on; \<open>clamp\<close> is \<open>min (max x minVal) maxVal\<close>; \<open>smoothstep\<close>
  is the Hermite polynomial of the clamped ratio (the formula every implementation
  evaluates, also when the first edge is the larger one, as in the effect shader);
  \<open>length\<close> is the Euclidean norm; the constructor \<open>ivec2\<close> of a float vector drops
  the fractional part of each component.
\<close>

definition glsl_sign :: "real \<Rightarrow> real" where
  "glsl_sign x = (if 0 < x then 1 else if x < 0 then -1 else 0)"

definition glsl_step :: "real \<Rightarrow> real \<Rightarrow> real" where
  "glsl_step edge x = (if x < edge then 0 else 1)"

definition glsl_clamp :: "real \<Rightarrow> real \<Rightarrow> real \<Rightarrow> real" where
  "glsl_clamp x minVal maxVal = min (max x minVal) maxVal"

definition glsl_smoothstep :: "real \<Rightarrow> real \<Rightarrow> real \<Rightarrow> real" where
  "glsl_smoothstep edge0 edge1 x =
     (let t = glsl_clamp ((x - edge0) / (edge1 - edge0)) 0 1 in t * t * (3 - 2 * t))"

definition glsl_length :: "vec2 \<Rightarrow> real" where
  "glsl_length v = sqrt (fst v * fst v + snd v * snd v)"

definition glsl_int :: "real \<Rightarrow> int" where
  "glsl_int x = (if 0 \<le> x then \<lfloor>x\<rfloor> else \<lceil>x\<rceil>)"

subsection \<open>Textures and raster passes\<close>

text \<open>
  A texture (the colour attachment of a render target) has a size and a texel for every
  coordinate inside it. \<open>tex_data\<close> is total; no shader of the effects reads it outside
  the bounds: \<open>texelFetch\<close> out of range gives zero (WebGL 2 robust access; the jump-flood
  shader checks the bounds itself, before fetching), and \<open>texture2D\<close> under the targets'
  NearestFilter and ClampToEdge wrapping reads the nearest texel inside.
\<close>

record texture =
  tex_width :: int
  tex_height :: int
  tex_data :: "ivec2 \<Rightarrow> vec4"

definition in_bounds :: "texture \<Rightarrow> ivec2 \<Rightarrow> bool" where
  "in_bounds t p \<longleftrightarrow>
     0 \<le> fst p \<and> fst p < tex_width t \<and> 0 \<le> snd p \<and> snd p < tex_height t"

definition texelFetch :: "texture \<Rightarrow> ivec2 \<Rightarrow> vec4" where
  "texelFetch t p = (if in_bounds t p then tex_data t p else Vec4 0 0 0 0)"

definition clamp_int :: "int \<Rightarrow> int \<Rightarrow> int \<Rightarrow> int" where
  "clamp_int x lo hi = min (max x lo) hi"

definition texture2D_texel :: "texture \<Rightarrow> ivec2 \<Rightarrow> vec4" where
  "texture2D_texel t p =
     tex_data t (clamp_int (fst p) 0 (tex_width t - 1), clamp_int (snd p) 0 (tex_height t - 1))"

text \<open>\<open>gl_FragCoord.xy\<close> of the fragment at a pixel is the pixel's centre.\<close>

definition gl_FragCoord :: "ivec2 \<Rightarrow> vec2" where
  "gl_FragCoord p = (of_int (fst p) + 1/2, of_int (snd p) + 1/2)"

text \<open>
  \<open>renderer.clear()\<close> and a draw call on the current target. The scissor test limits
  both to the scissor rectangle; \<open>coverage\<close> is the set of pixels the drawn geometry
  rasterises to (every pixel for a full-screen quad); a discarded fragment (\<open>None\<close>)
  writes nothing. With \<open>renderer.autoClear\<close> set, three.js clears the target before
  it draws.
\<close>

definition clear_target :: "(ivec2 \<Rightarrow> bool) \<Rightarrow> vec4 \<Rightarrow> texture \<Rightarrow> texture" where
  "clear_target scissor clearValue target =
     target\<lparr>tex_data := (\<lambda>p. if in_bounds target p \<and> scissor p then clearValue
                            else tex_data target p)\<rparr>"

definition draw :: "(ivec2 \<Rightarrow> bool) \<Rightarrow> (ivec2 \<Rightarrow> bool) \<Rightarrow> (ivec2 \<Rightarrow> vec4 option)
    \<Rightarrow> texture \<Rightarrow> texture" where
  "draw scissor coverage frag target =
     target\<lparr>tex_data := (\<lambda>p. if in_bounds target p \<and> scissor p \<and> coverage p
                            then (case frag p of Some c \<Rightarrow> c | None \<Rightarrow> tex_data target p)
                            else tex_data target p)\<rparr>"

definition render_pass :: "bool \<Rightarrow> vec4 \<Rightarrow> (ivec2 \<Rightarrow> bool) \<Rightarrow> (ivec2 \<Rightarrow> bool)
    \<Rightarrow> (ivec2 \<Rightarrow> vec4 option) \<Rightarrow> texture \<Rightarrow> texture" where
  "render_pass autoClear clearValue scissor coverage frag target =
     draw scissor coverage frag
       (if autoClear then clear_target scissor clearValue target else target)"

definition fullscreen :: "ivec2 \<Rightarrow> bool" where
  "fullscreen p = True"

text \<open>
  A full-screen quad whose shader never discards, drawn with the scissor test off: every
  texel of the target is written. The target keeps its size; outside of it the function
  stored has no texel behind it and is never read.
\<close>

definition fullscreen_pass :: "(ivec2 \<Rightarrow> vec4) \<Rightarrow> texture \<Rightarrow> texture" where
  "fullscreen_pass frag target = target\<lparr>tex_data := frag\<rparr>"

subsection \<open>ExpandMaskMaterial\<close>

text \<open>
  \<^verbatim>\<open>for (int x = -1; x <= 1; x++) for (int y = -1; y <= 1; y++) {
    if (x == 0 && y == 0) continue;
    ivec2 coord = currCoord + ivec2(x, y);
    float otherValue = texelFetch(source, coord, 0).r;
    if (otherValue != 0.0) { gl_FragColor = vec4(1.0); return; } }
  gl_FragColor = vec4(0.0);\<close>
\<close>

definition expand_offsets :: "ivec2 list" where
  "expand_offsets = [(x, y). x \<leftarrow> [-1, 0, 1], y \<leftarrow> [-1, 0, 1], \<not> (x = 0 \<and> y = 0)]"

fun expand_scan :: "texture \<Rightarrow> ivec2 \<Rightarrow> ivec2 list \<Rightarrow> vec4" where
  "expand_scan source currCoord [] = Vec4 0 0 0 0"
| "expand_scan source currCoord (d # rest) =
     (let coord = (fst currCoord + fst d, snd currCoord + snd d);
          otherValue = vx (texelFetch source coord)
      in if otherValue \<noteq> 0 then Vec4 1 1 1 1 else expand_scan source currCoord rest)"

definition expand_fragment :: "texture \<Rightarrow> ivec2 \<Rightarrow> vec4" where
  "expand_fragment source currCoord = expand_scan source currCoord expand_offsets"

text \<open>
  One pass of the expand quad from one mask into the other; the two masks always have
  the same size, so the result is the source with every texel replaced.
\<close>

definition expand_pass :: "texture \<Rightarrow> texture" where
  "expand_pass source = fullscreen_pass (expand_fragment source) source"

text \<open>A texel of a mask is set when its red channel is not zero.\<close>

definition is_set :: "texture \<Rightarrow> ivec2 \<Rightarrow> bool" where
  "is_set t p \<longleftrightarrow> vx (texelFetch t p) \<noteq> 0"

definition single_texel_mask :: texture where
  "single_texel_mask =
     \<lparr>tex_width = 5, tex_height = 5,
      tex_data = (\<lambda>p. if p = (2, 2) then Vec4 1 0 0 1 else Vec4 0 0 0 1)\<rparr>"

subsection \<open>SeedMaterial and the seed stage of JumpFloodEffect.render\<close>

text \<open>
  The uniform \<open>negative\<close> starts at 1; the setter stores -1 for true and 1 for false.
  \<^verbatim>\<open>gl_FragColor = vec4(gl_FragCoord.xy, 1e4 * float(negative), 1);\<close>
\<close>

record SeedMaterial =
  negative_uniform :: int

definition SeedMaterial_new :: SeedMaterial where
  "SeedMaterial_new = \<lparr>negative_uniform = 1\<rparr>"

definition get_negative :: "SeedMaterial \<Rightarrow> bool" where
  "get_negative m \<longleftrightarrow> negative_uniform m = -1"

definition set_negative :: "bool \<Rightarrow> SeedMaterial \<Rightarrow> SeedMaterial" where
  "set_negative v m = m\<lparr>negative_uniform := (if v then -1 else 1)\<rparr>"

definition seed_fragment :: "SeedMaterial \<Rightarrow> vec2 \<Rightarrow> vec4" where
  "seed_fragment m fragCoord =
     Vec4 (fst fragCoord) (snd fragCoord) (10000 * of_int (negative_uniform m)) 1"

text \<open>
  The constructor builds \<open>seedQuad\<close> around its own \<open>new SeedMaterial()\<close>, and nothing
  ever sets \<open>negative\<close> on that material; \<open>this.seedMaterial\<close> is a second instance.
\<close>

definition seedQuad_material :: SeedMaterial where
  "seedQuad_material = SeedMaterial_new"

text \<open>
  \<^verbatim>\<open>renderer.setRenderTarget(targets[0]); this.seedQuad.render(renderer);\<close>
\<close>

definition seed_init :: "bool \<Rightarrow> vec4 \<Rightarrow> (ivec2 \<Rightarrow> bool) \<Rightarrow> texture \<Rightarrow> texture" where
  "seed_init autoClear clearValue scissor target0 =
     render_pass autoClear clearValue scissor fullscreen
       (\<lambda>p. Some (seed_fragment seedQuad_material (gl_FragCoord p))) target0"

text \<open>
  \<^verbatim>\<open>scene.overrideMaterial = this.seedMaterial; this.seedMaterial.negative = true;
  renderer.autoClear = false; renderer.render(scene, camera);\<close>
  Only the selected object is visible; \<open>objectCoverage\<close> is the set of pixels it covers.
\<close>

definition seed_object :: "vec4 \<Rightarrow> (ivec2 \<Rightarrow> bool) \<Rightarrow> (ivec2 \<Rightarrow> bool) \<Rightarrow> SeedMaterial
    \<Rightarrow> texture \<Rightarrow> SeedMaterial \<times> texture" where
  "seed_object clearValue scissor objectCoverage seedMaterial target0 =
     (let seedMaterial = set_negative True seedMaterial;
          autoClear = False
      in (seedMaterial,
          render_pass autoClear clearValue scissor objectCoverage
            (\<lambda>p. Some (seed_fragment seedMaterial (gl_FragCoord p))) target0))"

definition seed_stage :: "bool \<Rightarrow> vec4 \<Rightarrow> (ivec2 \<Rightarrow> bool) \<Rightarrow> (ivec2 \<Rightarrow> bool) \<Rightarrow> SeedMaterial
    \<Rightarrow> texture \<Rightarrow> SeedMaterial \<times> texture" where
  "seed_stage autoClear clearValue scissor objectCoverage seedMaterial target0 =
     seed_object clearValue scissor objectCoverage seedMaterial
       (seed_init autoClear clearValue scissor target0)"

definition blank_target :: texture where
  "blank_target = \<lparr>tex_width = 2, tex_height = 1, tex_data = (\<lambda>p. Vec4 0 0 0 0)\<rparr>"

subsection \<open>JFAMaterial\<close>

text \<open>
  The constructor unrolls the neighbour loop: \<open>i\<close> from 0 to 8, \<open>x = i % 3 - 1\<close>,
  \<open>y = floor(i / 3) - 1\<close>, the centre skipped.
\<close>

definition jfa_offsets :: "ivec2 list" where
  "jfa_offsets =
     filter (\<lambda>(x, y). \<not> (x = 0 \<and> y = 0)) (map (\<lambda>i. (i mod 3 - 1, i div 3 - 1)) [0..8])"

text \<open>One unrolled block: the running \<open>result\<close> after looking at the neighbour \<open>xy\<close>.\<close>

definition jfa_sample :: "texture \<Rightarrow> int \<Rightarrow> ivec2 \<Rightarrow> real \<Rightarrow> vec3 \<Rightarrow> ivec2 \<Rightarrow> vec3" where
  "jfa_sample source step currCoord resultSign result xy =
     (let otherCoord = (fst currCoord + fst xy * step, snd currCoord + snd xy * step)
      in if fst otherCoord < tex_width source \<and> fst otherCoord \<ge> 0 \<and>
            snd otherCoord < tex_height source \<and> snd otherCoord \<ge> 0
         then
           let other = rgb (texelFetch source otherCoord)
           in if z3 other \<noteq> 0
              then
                if resultSign \<noteq> glsl_sign (z3 other)
                then
                  let dist' = glsl_length (of_int (fst currCoord - fst otherCoord),
                                           of_int (snd currCoord - snd otherCoord))
                  in if dist' < z3 result * resultSign
                     then Vec3 (of_int (fst otherCoord)) (of_int (snd otherCoord))
                            (dist' * resultSign)
                     else result
                else if (glsl_int (x3 other), glsl_int (y3 other)) \<noteq> otherCoord
                then
                  let dist' = glsl_length (of_int (fst currCoord - glsl_int (x3 other)),
                                           of_int (snd currCoord - glsl_int (y3 other)))
                  in if dist' < z3 result * resultSign
                     then Vec3 (x3 other) (y3 other) (dist' * resultSign)
                     else result
                else result
              else result
         else result)"

text \<open>
  \<open>maskValue\<close> is \<open>texture(mask, vUv).r\<close> at the fragment.
  \<^verbatim>\<open>if (texture(mask, vUv).r < 0.5) { gl_FragColor = vec4(result, 1); discard; }\<close>
  The assignment before \<open>discard\<close> has no effect: a discarded fragment writes nothing.
\<close>

definition jfa_fragment :: "texture \<Rightarrow> real \<Rightarrow> int \<Rightarrow> ivec2 \<Rightarrow> vec4 option" where
  "jfa_fragment source maskValue step currCoord =
     (let result = rgb (texelFetch source currCoord)
      in if maskValue < 0.5 then None
         else
           let resultSign = glsl_sign (z3 result);
               result = foldl (jfa_sample source step currCoord resultSign) result jfa_offsets
           in Some (Vec4 (x3 result) (y3 result) (z3 result) 1))"

text \<open>
  The mask is coarser than the targets; \<open>vUv\<close> at a fragment is its centre divided by the
  size of the target, and the mask's NearestFilter picks the texel that holds it.
\<close>

definition mask_sample :: "texture \<Rightarrow> texture \<Rightarrow> ivec2 \<Rightarrow> real" where
  "mask_sample mask' target p =
     (let u = fst (gl_FragCoord p) / of_int (tex_width target);
          v = snd (gl_FragCoord p) / of_int (tex_height target)
      in vx (texture2D_texel mask'
               (\<lfloor>u * of_int (tex_width mask')\<rfloor>, \<lfloor>v * of_int (tex_height mask')\<rfloor>)))"

text \<open>
  One pass of the flood loop, \<^verbatim>\<open>renderer.setRenderTarget(targets[1]); this.jfaQuad.render(renderer);\<close>
  At this point of render the scissor test is on, \<open>renderer.autoClear\<close> is true (set
  after the seed pass) and the clear colour is the \<open>(0, 0)\<close> set before the mask pass.
\<close>

definition jfa_pass :: "(ivec2 \<Rightarrow> bool) \<Rightarrow> texture \<Rightarrow> texture \<Rightarrow> int \<Rightarrow> texture \<Rightarrow> texture" where
  "jfa_pass scissor source mask' step target =
     render_pass True (Vec4 0 0 0 0) scissor fullscreen
       (\<lambda>p. jfa_fragment source (mask_sample mask' target p) step p) target"

definition two_texels :: texture where
  "two_texels =
     \<lparr>tex_width = 2, tex_height = 1,
      tex_data = (\<lambda>p. if p = (0, 0) then Vec4 (1/2) (1/2) 10000 1
                      else Vec4 (3/2) (1/2) (-10000) 1)\<rparr>"

definition zero_mask :: texture where
  "zero_mask = \<lparr>tex_width = 3, tex_height = 3, tex_data = (\<lambda>p. Vec4 0 0 0 1)\<rparr>"

definition stale_target :: texture where
  "stale_target = \<lparr>tex_width = 2, tex_height = 1, tex_data = (\<lambda>p. Vec4 7 7 7 1)\<rparr>"

text \<open>
  The per-pixel rule in the words of the specification: a neighbour inside the buffer
  with a nonzero marker is a candidate; with a sign other than the pixel's, at the
  distance to the neighbour's own coordinate; with the same sign and a stored seed
  other than its own coordinate, at the distance to that seed. The smallest distance is
  kept, replaced only by a strictly smaller one, and signed by the pixel's sign.
\<close>

definition euclid :: "ivec2 \<Rightarrow> ivec2 \<Rightarrow> real" where
  "euclid p q =
     sqrt ((of_int (fst p) - of_int (fst q))\<^sup>2 + (of_int (snd p) - of_int (snd q))\<^sup>2)"

definition spec_neighbours :: "ivec2 list" where
  "spec_neighbours = [(-1,-1), (0,-1), (1,-1), (-1,0), (1,0), (-1,1), (0,1), (1,1)]"

definition spec_candidate :: "texture \<Rightarrow> int \<Rightarrow> ivec2 \<Rightarrow> real \<Rightarrow> ivec2
    \<Rightarrow> (vec2 \<times> real) option" where
  "spec_candidate source step p sign0 d =
     (let q = (fst p + fst d * step, snd p + snd d * step)
      in if \<not> in_bounds source q then None
         else let n = tex_data source q; seed = (glsl_int (vx n), glsl_int (vy n))
              in if vz n = 0 then None
                 else if sgn (vz n) \<noteq> sign0
                 then Some ((of_int (fst q), of_int (snd q)), euclid p q)
                 else if seed \<noteq> q then Some ((vx n, vy n), euclid p seed)
                 else None)"

definition spec_keep :: "vec2 \<times> real \<Rightarrow> (vec2 \<times> real) option \<Rightarrow> vec2 \<times> real" where
  "spec_keep best cand =
     (case cand of None \<Rightarrow> best
      | Some c \<Rightarrow> if snd c < snd best then c else best)"

definition spec_jfa_record :: "texture \<Rightarrow> int \<Rightarrow> ivec2 \<Rightarrow> vec4" where
  "spec_jfa_record source step p =
     (let r0 = texelFetch source p; sign0 = sgn (vz r0);
          best = foldl spec_keep ((vx r0, vy r0), \<bar>vz r0\<bar>)
                   (map (spec_candidate source step p sign0) spec_neighbours)
      in Vec4 (fst (fst best)) (snd (fst best)) (sign0 * snd best) 1)"

text \<open>
  The shader's running \<open>result\<close> and the specification's running best candidate: the
  same coordinate, and the marker is the kept distance signed by the pixel's sign.
\<close>

definition rel :: "real \<Rightarrow> vec3 \<Rightarrow> vec2 \<times> real \<Rightarrow> bool" where
  "rel s r b \<longleftrightarrow>
     x3 r = fst (fst b) \<and> y3 r = snd (fst b) \<and> z3 r = s * snd b \<and> z3 r * s = snd b"

subsection \<open>EffectMaterial\<close>

text \<open>The setter of \<open>inside\<close> stores -1 for true and 1 for false.\<close>

definition set_inside :: "bool \<Rightarrow> int" where
  "set_inside v = (if v then -1 else 1)"

text \<open>
  \<^verbatim>\<open>float w = 0.5;
  float val = smoothstep(thickness + w, thickness - w, dist) * smoothstep(-w - 1.0, w - 1.0, dist);\<close>
\<close>

definition outline_val :: "real \<Rightarrow> real \<Rightarrow> real" where
  "outline_val thickness dist' =
     (let w = 0.5
      in glsl_smoothstep (thickness + w) (thickness - w) dist' *
         glsl_smoothstep (- w - 1.0) (w - 1.0) dist')"

text \<open>
  \<open>s\<close> is the texel of the flood result at the fragment. The colour-space include that
  ends the shader rewrites the colour channels only.
\<close>

definition effect_fragment :: "real \<Rightarrow> int \<Rightarrow> vec3 \<Rightarrow> vec4 \<Rightarrow> vec4 option" where
  "effect_fragment thickness inside color s =
     (if vz s = 0 then None
      else let dist' = vz s * of_int inside;
               val = outline_val thickness dist';
               a = glsl_clamp val 0 1
           in if a \<le> 0 then None
              else Some (Vec4 (x3 color) (y3 color) (z3 color) a))"

text \<open>The opacity the effect adds at a pixel: none where the fragment is discarded.\<close>

definition effect_opacity :: "real \<Rightarrow> int \<Rightarrow> vec3 \<Rightarrow> vec4 \<Rightarrow> real" where
  "effect_opacity thickness inside color s =
     (case effect_fragment thickness inside color s of None \<Rightarrow> 0 | Some c \<Rightarrow> vw c)"

subsection \<open>JumpFloodEffect: target size and the scissor region\<close>

text \<open>
  \<^verbatim>\<open>setSize(width, height) { const dpr = this.renderer.getPixelRatio();
    this.targets[0].setSize(width * dpr, height * dpr); ... }\<close>
\<close>

definition setSize :: "real \<Rightarrow> real \<Rightarrow> real \<Rightarrow> real \<times> real" where
  "setSize width height dpr = (width * dpr, height * dpr)"

text \<open>
  The camera's two matrices are taken by their action on a point, three.js's
  \<open>Vector3.applyMatrix4\<close> (the perspective divide included); \<open>Vector3.project\<close> applies
  the inverse world matrix and then the projection matrix. The bounding sphere is the one
  three.js computes from the selected object.
\<close>

record camera =
  matrixWorldInverse :: "vec3 \<Rightarrow> vec3"
  projectionMatrix :: "vec3 \<Rightarrow> vec3"

record bounding_sphere =
  sphere_center :: vec3
  sphere_radius :: real

definition project :: "camera \<Rightarrow> vec3 \<Rightarrow> vec3" where
  "project cam v = projectionMatrix cam (matrixWorldInverse cam v)"

definition multiplyScalar :: "vec3 \<Rightarrow> real \<Rightarrow> vec3" where
  "multiplyScalar v s = Vec3 (x3 v * s) (y3 v * s) (z3 v * s)"

text \<open>
  Lines 441 to 471 of render, statement by statement; the result is \<open>delta\<close> and the
  rectangle given to \<open>renderer.setScissor\<close>.
\<close>

definition render_scissor :: "camera \<Rightarrow> bounding_sphere \<Rightarrow> real \<Rightarrow> real \<Rightarrow> real \<Rightarrow> real
    \<Rightarrow> real \<times> (real \<times> real \<times> real \<times> real)" where
  "render_scissor cam sph targetWidth targetHeight pixelRatio thickness =
     (let offset = sphere_center sph;
          offset = matrixWorldInverse cam offset;
          offset = Vec3 (x3 offset + sphere_radius sph) (y3 offset) (z3 offset);
          offset = Vec3 (x3 offset) (y3 offset + sphere_radius sph) (z3 offset);
          offset = projectionMatrix cam offset;
          c = multiplyScalar (project cam (sphere_center sph)) 0.5;
          c = Vec3 (x3 c + 0.5) (y3 c) (z3 c);
          c = Vec3 (x3 c) (y3 c + 0.5) (z3 c);
          c = Vec3 (x3 c) (y3 c) 0;
          offset = multiplyScalar offset 0.5;
          offset = Vec3 (x3 offset + 0.5) (y3 offset) (z3 offset);
          offset = Vec3 (x3 offset) (y3 offset + 0.5) (z3 offset);
          offset = Vec3 (x3 offset) (y3 offset) 0;
          width = targetWidth / pixelRatio;
          height = targetHeight / pixelRatio;
          delta = max (\<bar>x3 c - x3 offset\<bar> * width) (\<bar>y3 c - y3 offset\<bar> * height) + thickness;
          c = Vec3 (x3 c * width) (y3 c) (z3 c);
          c = Vec3 (x3 c) (y3 c * height) (z3 c);
          x = x3 c; y = y3 c
      in (delta, (x - delta, y - delta, delta * 2, delta * 2)))"

text \<open>The two points of the specification, in normalized screen coordinates.\<close>

definition screen_center :: "camera \<Rightarrow> bounding_sphere \<Rightarrow> vec2" where
  "screen_center cam sph =
     (x3 (project cam (sphere_center sph)) / 2 + 1/2,
      y3 (project cam (sphere_center sph)) / 2 + 1/2)"

definition screen_offset :: "camera \<Rightarrow> bounding_sphere \<Rightarrow> vec2" where
  "screen_offset cam sph =
     (let v = matrixWorldInverse cam (sphere_center sph);
          displaced = Vec3 (x3 v + sphere_radius sph) (y3 v + sphere_radius sph) (z3 v);
          ndc = projectionMatrix cam displaced
      in (x3 ndc / 2 + 1/2, y3 ndc / 2 + 1/2))"

definition demo_camera :: camera where
  "demo_camera =
     \<lparr>matrixWorldInverse = (\<lambda>v. v),
      projectionMatrix = (\<lambda>v. Vec3 (x3 v / 4) (y3 v / 4) 0)\<rparr>"

definition unit_sphere :: bounding_sphere where
  "unit_sphere = \<lparr>sphere_center = Vec3 0 0 0, sphere_radius = 1\<rparr>"

subsection \<open>JumpFloodEffect.render: the flood schedule\<close>

text \<open>
  \<^verbatim>\<open>let step = Math.min(Math.max(targets[0].width, targets[0].height), thickness);\<close>
\<close>

definition jfa_start_step :: "real \<Rightarrow> real \<Rightarrow> real \<Rightarrow> real" where
  "jfa_start_step bufferWidth bufferHeight thickness =
     min (max bufferWidth bufferHeight) thickness"

text \<open>
  \<^verbatim>\<open>while (true) { <pass at step>; targets.reverse(); if (step <= 1) break; step = Math.ceil(step * 0.5); }\<close>

  \<open>jfa_steps step\<close> is the list of step values at which the loop issues a pass, in order.
  The loop is total on every real starting step: the ceiling of the step decreases.
\<close>

function jfa_steps :: "real \<Rightarrow> real list" where
  "jfa_steps step =
     step # (if step \<le> 1 then [] else jfa_steps (of_int \<lceil>step * 0.5\<rceil>))"
  by pat_completeness auto
termination
proof (relation "measure (\<lambda>step. nat \<lceil>step\<rceil>)")
  show "wf (measure (\<lambda>step::real. nat \<lceil>step\<rceil>))" by simp
next
  fix step :: real
  assume a: "\<not> step \<le> 1"
  have up: "step \<le> of_int \<lceil>step\<rceil>" by (rule le_of_int_ceiling)
  have one: "1 < \<lceil>step\<rceil>" using a by (simp add: less_ceiling_iff)
  then have one': "(2::real) \<le> of_int \<lceil>step\<rceil>" by linarith
  have b: "step * 0.5 \<le> of_int (\<lceil>step\<rceil> - 1)"
  proof (cases "step \<le> 2")
    case True
    then have "step * 0.5 \<le> 1" by simp
    then show ?thesis using one' unfolding of_int_diff of_int_1 by linarith
  next
    case False
    then have "step * 0.5 \<le> step - 1" by simp
    then show ?thesis using up unfolding of_int_diff of_int_1 by linarith
  qed
  have "\<lceil>step * 0.5\<rceil> \<le> \<lceil>step\<rceil> - 1" using b by (simp only: ceiling_le_iff)
  then have "nat \<lceil>step * 0.5\<rceil> < nat \<lceil>step\<rceil>" using one by linarith
  then show "(real_of_int \<lceil>step * 0.5\<rceil>, step) \<in> measure (\<lambda>step. nat \<lceil>step\<rceil>)"
    by simp
qed

declare jfa_steps.simps [simp del]

text \<open>The passes issued by one call of render, from the target size and the thickness.\<close>

definition render_flood_steps :: "real \<Rightarrow> real \<Rightarrow> real \<Rightarrow> real list" where
  "render_flood_steps bufferWidth bufferHeight thickness =
     jfa_steps (jfa_start_step bufferWidth bufferHeight thickness)"

subsection \<open>Renderer and scene state around a render call\<close>

text \<open>
  A render call is a sequence of steps on the state it shares with the rest of the
  viewer: assignments and state setters (\<open>Update\<close>) and calls into the GPU that may throw
  (\<open>Call\<close>: resizing a target, clearing, drawing). \<open>throws k\<close> says whether the \<open>k\<close>-th
  such call throws; the exception leaves the steps after it undone.
\<close>

type_synonym node = nat

datatype outcome = Returned | Thrown

datatype 'w step = Update "'w \<Rightarrow> 'w" | Call

fun run :: "'w step list \<Rightarrow> (nat \<Rightarrow> bool) \<Rightarrow> nat \<Rightarrow> 'w \<Rightarrow> outcome \<times> 'w" where
  "run [] throws k w = (Returned, w)"
| "run (Update f # rest) throws k w = run rest throws k (f w)"
| "run (Call # rest) throws k w =
     (if throws k then (Thrown, w) else run rest throws (Suc k) w)"

text \<open>What a step does to the state when nothing throws.\<close>

fun apply_step :: "'w \<Rightarrow> 'w step \<Rightarrow> 'w" where
  "apply_step w (Update f) = f w"
| "apply_step w Call = w"

text \<open>\<^verbatim>\<open>try { body } finally { fin }\<close>: the finally block runs on both ways out.\<close>

definition try_finally :: "'w step list \<Rightarrow> ('w \<Rightarrow> 'w) \<Rightarrow> (nat \<Rightarrow> bool) \<Rightarrow> nat \<Rightarrow> 'w
    \<Rightarrow> outcome \<times> 'w" where
  "try_finally body fin throws k w =
     (case run body throws k w of (out, w') \<Rightarrow> (out, fin w'))"

record renderer_scene =
  autoClear :: bool
  clearColor :: nat
  clearAlpha :: real
  scissorTest :: bool
  visible :: "node \<Rightarrow> bool"

text \<open>Two states agree on everything the rest of the viewer can see.\<close>

definition globals_eq :: "('a renderer_scene_scheme) \<Rightarrow> ('b renderer_scene_scheme) \<Rightarrow> bool" where
  "globals_eq a b \<longleftrightarrow> autoClear a = autoClear b \<and> clearColor a = clearColor b \<and>
     clearAlpha a = clearAlpha b \<and> scissorTest a = scissorTest b \<and> visible a = visible b"

text \<open>
  The scene by its traversals: the nodes \<open>scene.traverse\<close> visits, the nodes
  \<open>selectedObject.traverse\<close> visits, and which nodes are meshes, lines or points.
\<close>

record scene_env =
  scene_nodes :: "node list"
  selectedObject :: "node option"
  selected_nodes :: "node list"
  drawable :: "node \<Rightarrow> bool"

text \<open>\<^verbatim>\<open>if (!this.selectedObject || !this.selectedObject.visible) return;\<close>\<close>

definition selection_active :: "scene_env \<Rightarrow> (node \<Rightarrow> bool) \<Rightarrow> bool" where
  "selection_active env vis =
     (case selectedObject env of None \<Rightarrow> False | Some obj \<Rightarrow> vis obj)"

subsection \<open>JumpFloodEffect.render: state\<close>

text \<open>The locals of render that hold saved state.\<close>

record jf_frame = renderer_scene +
  originalAutoClear :: bool
  originalClearColor :: nat
  originalClearAlpha :: real
  originalVisible :: "(node \<times> bool) list"

text \<open>
  \<^verbatim>\<open>scene.traverse((obj) => { if (obj.isMesh || obj.isLine || obj.isPoints) {
    originalVisible.push({ obj, visible: obj.visible }); obj.visible = false; } });\<close>
\<close>

fun traverse_hide :: "(node \<Rightarrow> bool) \<Rightarrow> node list \<Rightarrow> (node \<times> bool) list \<times> (node \<Rightarrow> bool)
    \<Rightarrow> (node \<times> bool) list \<times> (node \<Rightarrow> bool)" where
  "traverse_hide d [] acc = acc"
| "traverse_hide d (obj # rest) (ov, vis) =
     traverse_hide d rest
       (if d obj then (ov @ [(obj, vis obj)], vis(obj := False)) else (ov, vis))"

fun traverse_show :: "(node \<Rightarrow> bool) \<Rightarrow> node list \<Rightarrow> (node \<Rightarrow> bool) \<Rightarrow> (node \<Rightarrow> bool)" where
  "traverse_show d [] vis = vis"
| "traverse_show d (obj # rest) vis =
     traverse_show d rest (if d obj then vis(obj := True) else vis)"

text \<open>\<^verbatim>\<open>originalVisible.forEach(({ obj, visible }) => { obj.visible = visible; });\<close>\<close>

fun restore_visible :: "(node \<times> bool) list \<Rightarrow> (node \<Rightarrow> bool) \<Rightarrow> (node \<Rightarrow> bool)" where
  "restore_visible [] vis = vis"
| "restore_visible ((obj, v) # rest) vis = restore_visible rest (vis(obj := v))"

definition hide_scene :: "scene_env \<Rightarrow> jf_frame \<Rightarrow> jf_frame" where
  "hide_scene env w =
     (let (ov, vis) = traverse_hide (drawable env) (scene_nodes env) ([], visible w)
      in w\<lparr>visible := vis, originalVisible := ov\<rparr>)"

definition show_selected :: "scene_env \<Rightarrow> jf_frame \<Rightarrow> jf_frame" where
  "show_selected env w =
     w\<lparr>visible := traverse_show (drawable env) (selected_nodes env) (visible w)\<rparr>"

definition restore_scene :: "jf_frame \<Rightarrow> jf_frame" where
  "restore_scene w = w\<lparr>visible := restore_visible (originalVisible w) (visible w)\<rparr>"

text \<open>
  The body of render after the guard, in source order. The calls are: the two mask
  resizes; the clear and the draw of the mask; the four expand draws; the seed quad; the
  seed draw of the object; one flood draw per step of the schedule; the effect quad.
  There is no \<open>try\<close> in this method.
\<close>

definition jf_body :: "scene_env \<Rightarrow> nat \<Rightarrow> jf_frame step list" where
  "jf_body env floodPasses =
     [Update (\<lambda>w. w\<lparr>originalAutoClear := autoClear w\<rparr>),
      Update (\<lambda>w. w\<lparr>originalClearColor := clearColor w\<rparr>),
      Update (\<lambda>w. w\<lparr>originalClearAlpha := clearAlpha w\<rparr>),
      Call, Call,
      Update (hide_scene env),
      Update (show_selected env),
      Update (\<lambda>w. w\<lparr>clearColor := 0, clearAlpha := 0\<rparr>),
      Call, Call,
      Update restore_scene]
     @ replicate 4 Call
     @ [Update (\<lambda>w. w\<lparr>scissorTest := True\<rparr>),
        Call,
        Update (show_selected env),
        Update (\<lambda>w. w\<lparr>autoClear := False\<rparr>),
        Call,
        Update (\<lambda>w. w\<lparr>autoClear := True\<rparr>),
        Update restore_scene]
     @ replicate floodPasses Call
     @ [Update (\<lambda>w. w\<lparr>autoClear := False\<rparr>),
        Call,
        Update (\<lambda>w. w\<lparr>autoClear := originalAutoClear w\<rparr>),
        Update (\<lambda>w. w\<lparr>scissorTest := False\<rparr>),
        Update (\<lambda>w. w\<lparr>clearColor := originalClearColor w,
                      clearAlpha := originalClearAlpha w\<rparr>)]"

definition JumpFloodEffect_render :: "scene_env \<Rightarrow> nat \<Rightarrow> (nat \<Rightarrow> bool) \<Rightarrow> jf_frame
    \<Rightarrow> outcome \<times> jf_frame" where
  "JumpFloodEffect_render env floodPasses throws w =
     (if \<not> selection_active env (visible w) then (Returned, w)
      else run (jf_body env floodPasses) throws 0 w)"

subsection \<open>OutlineEffect.render: state\<close>

record ol_frame = renderer_scene +
  savedAutoClear :: bool
  savedClearColor :: nat
  savedClearAlpha :: real

text \<open>Before the \<open>try\<close>: the three resizes of \<open>_updateSize\<close>, then the saves.\<close>

definition ol_prefix :: "ol_frame step list" where
  "ol_prefix =
     [Call, Call, Call,
      Update (\<lambda>w. w\<lparr>savedAutoClear := autoClear w\<rparr>),
      Update (\<lambda>w. w\<lparr>savedClearColor := clearColor w\<rparr>),
      Update (\<lambda>w. w\<lparr>savedClearAlpha := clearAlpha w\<rparr>)]"

text \<open>
  The \<open>try\<close> block: the clear and the draw of the mask, a clear and a draw per dilation
  pass, the composite draw.
\<close>

definition ol_try :: "nat \<Rightarrow> ol_frame step list" where
  "ol_try passes =
     [Update (\<lambda>w. w\<lparr>clearColor := 0, clearAlpha := 1\<rparr>),
      Call, Call]
     @ replicate (2 * passes) Call
     @ [Update (\<lambda>w. w\<lparr>autoClear := False\<rparr>),
        Call]"

definition ol_finally :: "ol_frame \<Rightarrow> ol_frame" where
  "ol_finally w =
     w\<lparr>autoClear := savedAutoClear w,
       clearColor := savedClearColor w, clearAlpha := savedClearAlpha w\<rparr>"

definition OutlineEffect_render_state :: "scene_env \<Rightarrow> nat \<Rightarrow> (nat \<Rightarrow> bool) \<Rightarrow> ol_frame
    \<Rightarrow> outcome \<times> ol_frame" where
  "OutlineEffect_render_state env passes throws w =
     (if \<not> selection_active env (visible w) then (Returned, w)
      else case run ol_prefix throws 0 w of
             (Thrown, w') \<Rightarrow> (Thrown, w')
           | (Returned, w') \<Rightarrow> try_finally (ol_try passes) ol_finally throws 3 w')"

definition demo_env :: scene_env where
  "demo_env = \<lparr>scene_nodes = [0, 1, 2, 3], selectedObject = Some 1, selected_nodes = [1, 2],
               drawable = (\<lambda>n. n \<noteq> 0)\<rparr>"

definition demo_jf_frame :: jf_frame where
  "demo_jf_frame = \<lparr>autoClear = True, clearColor = 16777215, clearAlpha = 1,
      scissorTest = True, visible = (\<lambda>n. n \<noteq> 2), originalAutoClear = False,
      originalClearColor = 0, originalClearAlpha = 0, originalVisible = []\<rparr>"

definition demo_ol_frame :: ol_frame where
  "demo_ol_frame = \<lparr>autoClear = True, clearColor = 16777215, clearAlpha = 1,
      scissorTest = True, visible = (\<lambda>n. n \<noteq> 2), savedAutoClear = False,
      savedClearColor = 0, savedClearAlpha = 0\<rparr>"

subsection \<open>OutlineEffect: dilation and compositing\<close>

text \<open>
  \<^verbatim>\<open>float val = max(center, max(right, max(left, max(up, down))));
  gl_FragColor = vec4(val, 0.0, 0.0, 1.0);\<close>
  The five reads are \<open>texture2D\<close> at \<open>vUv\<close> and at \<open>vUv\<close> moved by one texel.
\<close>

definition dilate_fragment :: "texture \<Rightarrow> ivec2 \<Rightarrow> vec4" where
  "dilate_fragment source p =
     (let center = vx (texture2D_texel source p);
          right = vx (texture2D_texel source (fst p + 1, snd p));
          left = vx (texture2D_texel source (fst p - 1, snd p));
          up = vx (texture2D_texel source (fst p, snd p + 1));
          down = vx (texture2D_texel source (fst p, snd p - 1));
          val = max center (max right (max left (max up down)))
      in Vec4 val 0 0 1)"

text \<open>
  \<^verbatim>\<open>float outline = step(0.5, d) * (1.0 - step(0.5, o));
  gl_FragColor = vec4(color, 1.0) * outline;\<close>
\<close>

definition composite_fragment :: "vec3 \<Rightarrow> texture \<Rightarrow> texture \<Rightarrow> ivec2 \<Rightarrow> vec4" where
  "composite_fragment color dilated original p =
     (let d = vx (texture2D_texel dilated p);
          o' = vx (texture2D_texel original p);
          outline = glsl_step 0.5 d * (1 - glsl_step 0.5 o')
      in Vec4 (x3 color * outline) (y3 color * outline) (z3 color * outline) (1 * outline))"

text \<open>
  Step 1 of render: the target is cleared to opaque black and the selected meshes are
  drawn with the white material; \<open>silhouette\<close> is the set of pixels they cover.
\<close>

definition mask_render :: "(ivec2 \<Rightarrow> bool) \<Rightarrow> texture \<Rightarrow> texture" where
  "mask_render silhouette target =
     fullscreen_pass (\<lambda>p. if silhouette p then Vec4 1 1 1 1 else Vec4 0 0 0 1) target"

datatype target_id = MaskTarget | DilateA | DilateB

record outline_targets =
  maskTarget :: texture
  dilateA :: texture
  dilateB :: texture

fun read_target :: "outline_targets \<Rightarrow> target_id \<Rightarrow> texture" where
  "read_target ts MaskTarget = maskTarget ts"
| "read_target ts DilateA = dilateA ts"
| "read_target ts DilateB = dilateB ts"

fun update_target :: "target_id \<Rightarrow> (texture \<Rightarrow> texture) \<Rightarrow> outline_targets
    \<Rightarrow> outline_targets" where
  "update_target MaskTarget f ts = ts\<lparr>maskTarget := f (maskTarget ts)\<rparr>"
| "update_target DilateA f ts = ts\<lparr>dilateA := f (dilateA ts)\<rparr>"
| "update_target DilateB f ts = ts\<lparr>dilateB := f (dilateB ts)\<rparr>"

text \<open>
  \<^verbatim>\<open>const physicalThickness = Math.max(1, Math.round(this.thickness * renderer.getPixelRatio()));\<close>
  \<open>Math.round\<close> rounds halves up, as \<open>round\<close> does.
\<close>

definition physicalThickness :: "real \<Rightarrow> real \<Rightarrow> int" where
  "physicalThickness thickness pixelRatio = max 1 (round (thickness * pixelRatio))"

text \<open>
  \<^verbatim>\<open>for (let i = 0; i < physicalThickness; i++) {
    source = readTarget.texture; renderer.setRenderTarget(writeTarget); <draw>;
    if (i === 0) { readTarget = this.dilateA; writeTarget = this.dilateB; }
    else { const tmp = readTarget; readTarget = writeTarget; writeTarget = tmp; } }\<close>
  The result is the final \<open>readTarget\<close>, the targets, and the number of draws.
\<close>

function dilate_loop :: "int \<Rightarrow> int \<Rightarrow> target_id \<Rightarrow> target_id \<Rightarrow> outline_targets \<Rightarrow> nat
    \<Rightarrow> target_id \<times> outline_targets \<times> nat" where
  "dilate_loop i n readTarget writeTarget ts passes =
     (if i < n then
        dilate_loop (i + 1) n
          (if i = 0 then DilateA else writeTarget)
          (if i = 0 then DilateB else readTarget)
          (update_target writeTarget
             (fullscreen_pass (dilate_fragment (read_target ts readTarget))) ts)
          (passes + 1)
      else (readTarget, ts, passes))"
  by pat_completeness auto
termination
  by (relation "measure (\<lambda>(i, n, _). nat (n - i))") auto

declare dilate_loop.simps [simp del]

text \<open>
  The three steps of render on the targets: the composite shader over the screen, the
  targets after the call, and the number of dilation draws.
\<close>

definition OutlineEffect_render :: "real \<Rightarrow> real \<Rightarrow> vec3 \<Rightarrow> (ivec2 \<Rightarrow> bool) \<Rightarrow> outline_targets
    \<Rightarrow> (ivec2 \<Rightarrow> vec4) \<times> outline_targets \<times> nat" where
  "OutlineEffect_render thickness pixelRatio color silhouette ts =
     (let n = physicalThickness thickness pixelRatio;
          ts = update_target MaskTarget (mask_render silhouette) ts;
          (readTarget, ts, passes) = dilate_loop 0 n MaskTarget DilateA ts 0
      in (composite_fragment color (read_target ts readTarget) (maskTarget ts), ts, passes))"

text \<open>\<open>_updateSize\<close> and the constructor give the three targets one size.\<close>

definition same_size :: "outline_targets \<Rightarrow> bool" where
  "same_size ts \<longleftrightarrow>
     tex_width (dilateA ts) = tex_width (maskTarget ts) \<and>
     tex_height (dilateA ts) = tex_height (maskTarget ts) \<and>
     tex_width (dilateB ts) = tex_width (maskTarget ts) \<and>
     tex_height (dilateB ts) = tex_height (maskTarget ts)"

text \<open>One dilation pass as a function of the mask it reads.\<close>

definition dilate_pass :: "texture \<Rightarrow> texture" where
  "dilate_pass source = fullscreen_pass (dilate_fragment source) source"

definition neighbours4 :: "ivec2 \<Rightarrow> ivec2 list" where
  "neighbours4 p = [(fst p + 1, snd p), (fst p - 1, snd p), (fst p, snd p + 1), (fst p, snd p - 1)]"

definition demo_targets :: outline_targets where
  "demo_targets =
     \<lparr>maskTarget = \<lparr>tex_width = 3, tex_height = 1, tex_data = (\<lambda>p. Vec4 0 0 0 0)\<rparr>,
      dilateA = \<lparr>tex_width = 3, tex_height = 1, tex_data = (\<lambda>p. Vec4 0 0 0 0)\<rparr>,
      dilateB = \<lparr>tex_width = 3, tex_height = 1, tex_data = (\<lambda>p. Vec4 0 0 0 0)\<rparr>\<rparr>"

definition demo_silhouette :: "ivec2 \<Rightarrow> bool" where
  "demo_silhouette p \<longleftrightarrow> p = (0, 0)"

section \<open>Properties\<close>

subsection \<open>The flood schedule\<close>

lemma halve_ceiling_ge1:
  fixes s :: real
  assumes "1 < s"
  shows "1 \<le> \<lceil>s * 0.5\<rceil>"
  using assms by (simp add: le_ceiling_iff)

lemma halve_ceiling_log:
  fixes s :: real
  assumes "1 < s"
  shows "\<lceil>log 2 (of_int \<lceil>s * 0.5\<rceil>)\<rceil> = \<lceil>log 2 s\<rceil> - 1"
proof -
  have pos: "0 < \<lceil>log 2 s\<rceil>" using assms by (simp add: less_ceiling_iff)
  define k where "k = nat (\<lceil>log 2 s\<rceil> - 1)"
  have k: "\<lceil>log 2 s\<rceil> = int k + 1" using pos by (simp add: k_def)
  have "0 < s" using assms by simp
  then have b: "2 powr k < s" "s \<le> 2 powr (real k + 1)"
    using ceiling_log_eq_powr_iff[of s 2 k] k by (simp_all add: add.commute)
  have b1: "2 ^ k < s" using b(1) by (simp add: powr_realpow)
  have b2: "s \<le> 2 * 2 ^ k" using b(2) by (simp add: powr_realpow powr_add)
  have "s * 0.5 \<le> of_int (2 ^ k)" using b2 by simp
  then have up: "\<lceil>s * 0.5\<rceil> \<le> 2 ^ k"
    by (simp only: ceiling_le_iff)
  have c1: "1 \<le> \<lceil>s * 0.5\<rceil>" using assms by (rule halve_ceiling_ge1)
  show ?thesis
  proof (cases k)
    case 0
    with up have "\<lceil>s * 0.5\<rceil> \<le> 1" by (simp only: power_0)
    with c1 have "\<lceil>s * 0.5\<rceil> = 1" by linarith
    then show ?thesis using k 0 by simp
  next
    case (Suc j)
    have lo: "2 ^ j < s * 0.5" using b1 Suc by simp
    have "s * 0.5 \<le> of_int \<lceil>s * 0.5\<rceil>" by (rule le_of_int_ceiling)
    with lo have "2 ^ j < real_of_int \<lceil>s * 0.5\<rceil>" by (rule less_le_trans)
    then have lo': "2 powr j < of_int \<lceil>s * 0.5\<rceil>"
      by (simp only: powr_realpow zero_less_numeral)
    have "real_of_int \<lceil>s * 0.5\<rceil> \<le> real_of_int (2 ^ Suc j)" using up Suc
      by (simp only: of_int_le_iff)
    then have up': "of_int \<lceil>s * 0.5\<rceil> \<le> 2 powr (real j + 1)"
      by (simp add: powr_realpow powr_add)
    have "0 < real_of_int \<lceil>s * 0.5\<rceil>" using c1 by linarith
    then have "\<lceil>log 2 (of_int \<lceil>s * 0.5\<rceil>)\<rceil> = int j + 1"
      using ceiling_log_eq_powr_iff[of "of_int \<lceil>s * 0.5\<rceil>" 2 j] lo' up'
      by (simp add: add.commute)
    then show ?thesis using k Suc by simp
  qed
qed

lemma jfa_steps_unfold:
  "\<not> step \<le> 1 \<Longrightarrow> jfa_steps step = step # jfa_steps (of_int \<lceil>step * 0.5\<rceil>)"
  by (subst jfa_steps.simps) simp

lemma jfa_steps_hd: "jfa_steps step ! 0 = step"
  by (subst jfa_steps.simps) simp

lemma jfa_steps_length:
  "1 \<le> s \<Longrightarrow> int (length (jfa_steps s)) = \<lceil>log 2 s\<rceil> + 1"
proof (induction s rule: jfa_steps.induct)
  case (1 step)
  show ?case
  proof (cases "step \<le> 1")
    case True
    then have "step = 1" using 1(2) by simp
    then show ?thesis by (simp add: jfa_steps.simps)
  next
    case False
    then have gt: "1 < step" by simp
    have "1 \<le> \<lceil>step * 0.5\<rceil>" using gt by (rule halve_ceiling_ge1)
    then have c1: "1 \<le> real_of_int \<lceil>step * 0.5\<rceil>" by linarith
    have ih: "int (length (jfa_steps (of_int \<lceil>step * 0.5\<rceil>))) =
        \<lceil>log 2 (of_int \<lceil>step * 0.5\<rceil>)\<rceil> + 1"
      using 1(1)[OF False c1] .
    show ?thesis using ih halve_ceiling_log[OF gt] jfa_steps_unfold[OF False] by simp
  qed
qed

lemma jfa_steps_last:
  "1 \<le> s \<Longrightarrow> last (jfa_steps s) = 1"
proof (induction s rule: jfa_steps.induct)
  case (1 step)
  show ?case
  proof (cases "step \<le> 1")
    case True
    then have "step = 1" using 1(2) by simp
    then show ?thesis by (simp add: jfa_steps.simps)
  next
    case False
    then have gt: "1 < step" by simp
    have "1 \<le> \<lceil>step * 0.5\<rceil>" using gt by (rule halve_ceiling_ge1)
    then have c1: "1 \<le> real_of_int \<lceil>step * 0.5\<rceil>" by linarith
    have ne: "jfa_steps (of_int \<lceil>step * 0.5\<rceil>) \<noteq> []"
      by (subst jfa_steps.simps) simp
    show ?thesis using 1(1)[OF False c1] ne jfa_steps_unfold[OF False] by simp
  qed
qed

lemma jfa_steps_succ:
  "Suc i < length (jfa_steps s) \<Longrightarrow>
     1 < jfa_steps s ! i \<and> jfa_steps s ! Suc i = of_int \<lceil>jfa_steps s ! i * 0.5\<rceil>"
proof (induction s arbitrary: i rule: jfa_steps.induct)
  case (1 step)
  show ?case
  proof (cases "step \<le> 1")
    case True
    then have "jfa_steps step = [step]" by (subst jfa_steps.simps) simp
    then show ?thesis using 1(2) by simp
  next
    case False
    note eq = jfa_steps_unfold[OF False]
    show ?thesis
    proof (cases i)
      case 0
      then show ?thesis using eq jfa_steps_hd[of "of_int \<lceil>step * 0.5\<rceil>"] False by simp
    next
      case (Suc j)
      then have "Suc j < length (jfa_steps (of_int \<lceil>step * 0.5\<rceil>))"
        using 1(2) eq by simp
      from 1(1)[OF False this] show ?thesis using eq Suc by simp
    qed
  qed
qed

text \<open>
  C3: the flood loop of \<open>JumpFloodEffect.render\<close> starts at
  \<open>min (max bufferWidth bufferHeight) thickness\<close>; each iteration but the last is at a step
  above 1 and is followed by one at the ceiling of half that step; whenever the starting
  step is at least 1 the last iteration is at step 1, and the loop runs exactly
  \<open>\<lceil>log\<^sub>2 step\<^sub>0\<rceil> + 1\<close> iterations.
\<close>

theorem jfa_flood_schedule:
  assumes "1 \<le> jfa_start_step bufferWidth bufferHeight thickness"
  shows "render_flood_steps bufferWidth bufferHeight thickness ! 0 =
           min (max bufferWidth bufferHeight) thickness
       \<and> (\<forall>i. Suc i < length (render_flood_steps bufferWidth bufferHeight thickness) \<longrightarrow>
             1 < render_flood_steps bufferWidth bufferHeight thickness ! i
           \<and> render_flood_steps bufferWidth bufferHeight thickness ! Suc i =
               of_int \<lceil>render_flood_steps bufferWidth bufferHeight thickness ! i * 0.5\<rceil>)
       \<and> last (render_flood_steps bufferWidth bufferHeight thickness) = 1
       \<and> int (length (render_flood_steps bufferWidth bufferHeight thickness)) =
           \<lceil>log 2 (jfa_start_step bufferWidth bufferHeight thickness)\<rceil> + 1"
  unfolding render_flood_steps_def
  using jfa_steps_length[OF assms] jfa_steps_last[OF assms] jfa_steps_succ
    jfa_steps_hd[of "jfa_start_step bufferWidth bufferHeight thickness"]
  by (simp add: jfa_start_step_def)

theorem jfa_flood_schedule_witness:
  "(1::real) \<le> jfa_start_step 1024 768 30
   \<and> render_flood_steps 1024 768 30 = [30, 15, 8, 4, 2, 1]
   \<and> last (render_flood_steps 1024 768 30) = 1
   \<and> \<lceil>log 2 (jfa_start_step 1024 768 30)\<rceil> + 1 = 6"
proof -
  have h: "(1::real) \<le> jfa_start_step 1024 768 30" by (simp add: jfa_start_step_def)
  have l: "render_flood_steps 1024 768 30 = [30, 15, 8, 4, 2, 1]"
    by (simp add: render_flood_steps_def jfa_start_step_def jfa_steps.simps)
  from jfa_flood_schedule[OF h] l show ?thesis using h by simp
qed

subsection \<open>The mask expansion\<close>

lemma expand_offsets_eq:
  "expand_offsets = [(-1,-1), (-1,0), (-1,1), (0,-1), (0,1), (1,-1), (1,0), (1,1)]"
  by (simp add: expand_offsets_def)

lemma expand_scan_iff:
  "expand_scan source c ds =
     (if \<exists>d \<in> set ds. is_set source (fst c + fst d, snd c + snd d)
      then Vec4 1 1 1 1 else Vec4 0 0 0 0)"
  by (induction ds) (auto simp: is_set_def Let_def)

lemma in_bounds_expand_pass [simp]: "in_bounds (expand_pass t) p = in_bounds t p"
  by (simp add: expand_pass_def fullscreen_pass_def in_bounds_def)

lemma is_set_expand_pass:
  "is_set (expand_pass t) p \<longleftrightarrow>
     in_bounds t p \<and> (\<exists>d \<in> set expand_offsets. is_set t (fst p + fst d, snd p + snd d))"
proof -
  have "is_set (expand_pass t) p \<longleftrightarrow> in_bounds t p \<and> vx (expand_fragment t p) \<noteq> 0"
    by (simp add: is_set_def texelFetch_def) (simp add: expand_pass_def fullscreen_pass_def)
  then show ?thesis by (simp add: expand_fragment_def expand_scan_iff)
qed

lemma is_set_in_bounds: "is_set t p \<Longrightarrow> in_bounds t p"
  by (auto simp: is_set_def texelFetch_def split: if_splits)

text \<open>
  Two neighbouring texels of a mask at least two texels wide and high have a common
  neighbour inside the mask.
\<close>

lemma common_neighbour:
  assumes p: "in_bounds t (x, y)" and q: "in_bounds t (x + dx, y + dy)"
    and d: "(dx, dy) \<in> set expand_offsets"
    and sz: "2 \<le> tex_width t" "2 \<le> tex_height t"
  shows "\<exists>e \<in> set expand_offsets. in_bounds t (x + fst e, y + snd e)
           \<and> (\<exists>f \<in> set expand_offsets.
                 (x + fst e + fst f, y + snd e + snd f) = (x + dx, y + dy))"
proof -
  have dd: "dx \<in> {-1, 0, 1}" "dy \<in> {-1, 0, 1}" "\<not> (dx = 0 \<and> dy = 0)"
    using d by (auto simp: expand_offsets_eq)
  consider (diag) "dx \<noteq> 0" "dy \<noteq> 0" | (horiz) "dx \<noteq> 0" "dy = 0" | (vert) "dx = 0" "dy \<noteq> 0"
    using dd by auto
  then show ?thesis
  proof cases
    case diag
    have "in_bounds t (x + dx, y + 0)" using p q by (simp add: in_bounds_def)
    moreover have "(dx, 0) \<in> set expand_offsets" "(0, dy) \<in> set expand_offsets"
      using dd diag by (auto simp: expand_offsets_eq)
    ultimately show ?thesis
      by (intro bexI[where x = "(dx, 0)"] conjI bexI[where x = "(0, dy)"]) simp_all
  next
    case horiz
    show ?thesis
    proof (cases "y + 1 < tex_height t")
      case True
      have "in_bounds t (x + 0, y + 1)" using p True by (simp add: in_bounds_def)
      moreover have "(0, 1) \<in> set expand_offsets" "(dx, -1) \<in> set expand_offsets"
        using dd horiz by (auto simp: expand_offsets_eq)
      ultimately show ?thesis using horiz
        by (intro bexI[where x = "(0, 1)"] conjI bexI[where x = "(dx, -1)"]) simp_all
    next
      case False
      then have "in_bounds t (x + 0, y + (-1))" using p sz by (simp add: in_bounds_def)
      moreover have "(0, -1) \<in> set expand_offsets" "(dx, 1) \<in> set expand_offsets"
        using dd horiz by (auto simp: expand_offsets_eq)
      ultimately show ?thesis using horiz
        by (intro bexI[where x = "(0, -1)"] conjI bexI[where x = "(dx, 1)"]) simp_all
    qed
  next
    case vert
    show ?thesis
    proof (cases "x + 1 < tex_width t")
      case True
      have "in_bounds t (x + 1, y + 0)" using p True by (simp add: in_bounds_def)
      moreover have "(1, 0) \<in> set expand_offsets" "(-1, dy) \<in> set expand_offsets"
        using dd vert by (auto simp: expand_offsets_eq)
      ultimately show ?thesis using vert
        by (intro bexI[where x = "(1, 0)"] conjI bexI[where x = "(-1, dy)"]) simp_all
    next
      case False
      then have "in_bounds t (x + (-1), y + 0)" using p sz by (simp add: in_bounds_def)
      moreover have "(-1, 0) \<in> set expand_offsets" "(1, dy) \<in> set expand_offsets"
        using dd vert by (auto simp: expand_offsets_eq)
      ultimately show ?thesis using vert
        by (intro bexI[where x = "(-1, 0)"] conjI bexI[where x = "(1, dy)"]) simp_all
    qed
  qed
qed

lemma expand_pass_twice:
  assumes sz: "2 \<le> tex_width t" "2 \<le> tex_height t"
    and s: "is_set (expand_pass t) p"
  shows "is_set (expand_pass (expand_pass t)) p"
proof -
  obtain x y where pxy: "p = (x, y)" by (cases p)
  from s obtain d where pb: "in_bounds t p" and d: "d \<in> set expand_offsets"
    and qs: "is_set t (fst p + fst d, snd p + snd d)"
    by (auto simp: is_set_expand_pass)
  obtain dx dy where dxy: "d = (dx, dy)" by (cases d)
  have qb: "in_bounds t (x + dx, y + dy)" using is_set_in_bounds[OF qs] pxy dxy by simp
  from common_neighbour[OF _ qb _ sz] pb d pxy dxy
  obtain e f where e: "e \<in> set expand_offsets" "in_bounds t (x + fst e, y + snd e)"
    and f: "f \<in> set expand_offsets"
      "(x + fst e + fst f, y + snd e + snd f) = (x + dx, y + dy)"
    by auto
  have qs': "is_set t (fst (x + fst e, y + snd e) + fst f, snd (x + fst e, y + snd e) + snd f)"
    using qs pxy dxy unfolding fst_conv snd_conv f(2) by simp
  have "is_set (expand_pass t) (x + fst e, y + snd e)"
    unfolding is_set_expand_pass using e(2) f(1) qs' by blast
  then show ?thesis
    unfolding is_set_expand_pass[of "expand_pass t"] using pb e(1) pxy
    by auto
qed

lemma funpow_expand_size [simp]:
  "tex_width ((expand_pass ^^ k) t) = tex_width t"
  "tex_height ((expand_pass ^^ k) t) = tex_height t"
  by (induction k) (simp_all add: expand_pass_def fullscreen_pass_def)

lemma expand_funpow_grows:
  assumes "2 \<le> tex_width t" "2 \<le> tex_height t"
    and "is_set ((expand_pass ^^ Suc j) t) p"
  shows "is_set ((expand_pass ^^ Suc (Suc j)) t) p"
  using expand_pass_twice[of "(expand_pass ^^ j) t" p] assms by simp

text \<open>
  C5, as the claim states it, fails: the shader skips the texel itself, so a set texel
  with no set neighbour is cleared by one pass. The mask of 5 by 5 texels with only
  texel (2, 2) set loses that texel in the first pass.
\<close>

theorem expand_pass_clears_isolated_texel:
  "is_set single_texel_mask (2, 2) \<and> \<not> is_set (expand_pass single_texel_mask) (2, 2)"
  by (simp add: is_set_expand_pass expand_offsets_eq)
     (simp add: is_set_def texelFetch_def in_bounds_def single_texel_mask_def)

text \<open>
  C5, amended: a pass outputs 1 for a texel exactly when one of its 8 neighbours (the
  texel itself is not looked at) is nonzero, and 0 otherwise; so a set texel stays set
  when it has a set neighbour, and on a mask at least 2 texels wide and high (the code
  makes it at least 3 by 3) the set after \<open>k\<close> passes contains the set after \<open>k - 1\<close>
  passes for every \<open>k \<ge> 2\<close>.
\<close>

theorem expand_pass_growth:
  "expand_fragment source p =
      (if \<exists>d \<in> set [(-1,-1), (-1,0), (-1,1), (0,-1), (0,1), (1,-1), (1,0), (1,1)].
            vx (texelFetch source (fst p + fst d, snd p + snd d)) \<noteq> 0
       then Vec4 1 1 1 1 else Vec4 0 0 0 0)
   \<and> (is_set t p \<and> (\<exists>d \<in> set expand_offsets. is_set t (fst p + fst d, snd p + snd d))
        \<longrightarrow> is_set (expand_pass t) p)
   \<and> (2 \<le> tex_width t \<and> 2 \<le> tex_height t \<and> 2 \<le> k \<and> is_set ((expand_pass ^^ (k - 1)) t) p
        \<longrightarrow> is_set ((expand_pass ^^ k) t) p)"
proof (intro conjI impI)
  show "expand_fragment source p =
      (if \<exists>d \<in> set [(-1,-1), (-1,0), (-1,1), (0,-1), (0,1), (1,-1), (1,0), (1,1)].
            vx (texelFetch source (fst p + fst d, snd p + snd d)) \<noteq> 0
       then Vec4 1 1 1 1 else Vec4 0 0 0 0)"
    unfolding expand_fragment_def expand_scan_iff expand_offsets_eq is_set_def ..
next
  assume "is_set t p \<and> (\<exists>d \<in> set expand_offsets. is_set t (fst p + fst d, snd p + snd d))"
  then show "is_set (expand_pass t) p"
    using is_set_in_bounds[of t p] by (simp add: is_set_expand_pass)
next
  assume a: "2 \<le> tex_width t \<and> 2 \<le> tex_height t \<and> 2 \<le> k
      \<and> is_set ((expand_pass ^^ (k - 1)) t) p"
  then obtain j where k: "k = Suc (Suc j)" by (cases k rule: nat.exhaust; cases "k - 1") auto
  then have "is_set ((expand_pass ^^ Suc j) t) p" using a by simp
  then show "is_set ((expand_pass ^^ k) t) p"
    unfolding k using a by (intro expand_funpow_grows) simp_all
qed

theorem expand_pass_growth_witness:
  "2 \<le> tex_width single_texel_mask \<and> 2 \<le> tex_height single_texel_mask \<and> (2::nat) \<le> 2
   \<and> is_set ((expand_pass ^^ (2 - 1)) single_texel_mask) (1, 1)
   \<and> is_set ((expand_pass ^^ 2) single_texel_mask) (1, 1)"
proof -
  have s: "2 \<le> tex_width single_texel_mask" "2 \<le> tex_height single_texel_mask"
    by (simp_all add: single_texel_mask_def)
  have "is_set (expand_pass single_texel_mask) (1, 1)"
    by (simp add: is_set_expand_pass expand_offsets_eq)
       (simp add: is_set_def texelFetch_def in_bounds_def single_texel_mask_def)
  then have one: "is_set ((expand_pass ^^ (2 - 1)) single_texel_mask) (1, 1)" by simp
  from expand_pass_growth[of single_texel_mask "(1, 1)" single_texel_mask 2] s one
  show ?thesis by blast
qed

subsection \<open>The seed stage\<close>

lemma in_bounds_render_pass [simp]:
  "in_bounds (render_pass ac cv sc cov frag t) p = in_bounds t p"
  by (simp add: render_pass_def draw_def clear_target_def in_bounds_def)

lemma tex_data_render_pass:
  "tex_data (render_pass ac cv sc cov frag t) p =
     (if in_bounds t p \<and> sc p
      then (case (if cov p then frag p else None) of
              Some c \<Rightarrow> c
            | None \<Rightarrow> if ac then cv else tex_data t p)
      else tex_data t p)"
  by (simp add: render_pass_def draw_def clear_target_def in_bounds_def split: option.splits)

lemma seed_init_texel:
  "in_bounds t p \<Longrightarrow> sc p \<Longrightarrow>
   tex_data (seed_init ac cv sc t) p =
     Vec4 (of_int (fst p) + 1/2) (of_int (snd p) + 1/2) 10000 1"
  by (simp add: seed_init_def tex_data_render_pass fullscreen_def seed_fragment_def
      gl_FragCoord_def seedQuad_material_def SeedMaterial_new_def)

lemma in_bounds_seed_init [simp]: "in_bounds (seed_init ac cv sc t) p = in_bounds t p"
  by (simp add: seed_init_def)

lemma seed_stage_texel:
  "in_bounds t p \<Longrightarrow> sc p \<Longrightarrow>
   tex_data (snd (seed_stage ac cv sc cov m t)) p =
     Vec4 (of_int (fst p) + 1/2) (of_int (snd p) + 1/2) (if cov p then -10000 else 10000) 1"
  by (simp add: seed_stage_def seed_object_def Let_def tex_data_render_pass seed_init_texel
      seed_fragment_def gl_FragCoord_def set_negative_def)

text \<open>
  C1, as the claim states it, fails in the signs: the seed quad's material keeps the
  uniform at 1, so the full-screen pass writes the marker +10000, which is not negative,
  and the object pass, after \<open>negative = true\<close>, writes -10000, which is not positive.
\<close>

theorem seed_markers_have_opposite_signs:
  "vz (tex_data (seed_init True (Vec4 0 0 0 0) fullscreen blank_target) (0, 0)) = 10000
   \<and> \<not> vz (tex_data (seed_init True (Vec4 0 0 0 0) fullscreen blank_target) (0, 0)) < 0
   \<and> vz (tex_data (snd (seed_stage True (Vec4 0 0 0 0) fullscreen (\<lambda>p. p = (1, 0))
            SeedMaterial_new blank_target)) (1, 0)) = - 10000
   \<and> \<not> 0 < vz (tex_data (snd (seed_stage True (Vec4 0 0 0 0) fullscreen (\<lambda>p. p = (1, 0))
            SeedMaterial_new blank_target)) (1, 0))"
proof -
  have b: "in_bounds blank_target (0, 0)" "in_bounds blank_target (1, 0)"
    by (simp_all add: in_bounds_def blank_target_def)
  show ?thesis
    using seed_init_texel[OF b(1), of fullscreen True "Vec4 0 0 0 0"]
      seed_stage_texel[OF b(2), of fullscreen True "Vec4 0 0 0 0" "\<lambda>p. p = (1, 0)"
        SeedMaterial_new]
    by (simp add: fullscreen_def)
qed

text \<open>
  C1, amended: for every pixel of the target inside the scissor region, the full-screen
  seed pass writes the pixel's own coordinate (its centre) with the marker +10000
  (positive: exterior, unresolved), and after the object pass a covered pixel holds its
  own coordinate with the marker -10000 (negative: interior, unresolved) while the other
  pixels keep the first seed; the marker's magnitude is 10000 in both sub-steps.
\<close>

theorem seed_stage_markers:
  assumes "in_bounds target p" and "scissor p"
  shows "tex_data (seed_init ac cv scissor target) p =
           Vec4 (of_int (fst p) + 1/2) (of_int (snd p) + 1/2) 10000 1
       \<and> tex_data (snd (seed_stage ac cv scissor objectCoverage m target)) p =
           Vec4 (of_int (fst p) + 1/2) (of_int (snd p) + 1/2)
             (if objectCoverage p then - 10000 else 10000) 1
       \<and> \<bar>vz (tex_data (seed_init ac cv scissor target) p)\<bar> = 10000
       \<and> \<bar>vz (tex_data (snd (seed_stage ac cv scissor objectCoverage m target)) p)\<bar>
           = 10000"
  using assms by (simp add: seed_init_texel seed_stage_texel)

theorem seed_stage_markers_witness:
  "in_bounds blank_target (1, 0) \<and> fullscreen (1, 0)
   \<and> tex_data (seed_init True (Vec4 0 0 0 0) fullscreen blank_target) (1, 0)
       = Vec4 (3/2) (1/2) 10000 1
   \<and> tex_data (snd (seed_stage True (Vec4 0 0 0 0) fullscreen (\<lambda>p. p = (1, 0))
        SeedMaterial_new blank_target)) (1, 0) = Vec4 (3/2) (1/2) (- 10000) 1"
proof -
  have b: "in_bounds blank_target (1, 0)" by (simp add: in_bounds_def blank_target_def)
  have f: "fullscreen (1, 0)" by (simp add: fullscreen_def)
  from seed_stage_markers[where target = blank_target and p = "(1, 0)" and scissor = fullscreen
      and ac = True and cv = "Vec4 0 0 0 0" and objectCoverage = "\<lambda>p. p = (1, 0)"
      and m = SeedMaterial_new, OF b f]
  show ?thesis using b f by simp
qed

subsection \<open>The jump-flood pass\<close>

lemma jfa_offsets_eq: "jfa_offsets = spec_neighbours"
  by (simp add: jfa_offsets_def spec_neighbours_def upto.simps)

lemma glsl_sign_sgn: "glsl_sign x = sgn x"
  by (simp add: glsl_sign_def sgn_real_def)

lemma glsl_length_euclid:
  "glsl_length (of_int (fst p - fst q), of_int (snd p - snd q)) = euclid p q"
  by (simp add: glsl_length_def euclid_def power2_eq_square)

lemma euclid_nonneg: "0 \<le> euclid p q"
  by (simp add: euclid_def)

lemma rel_update:
  assumes "rel s r b" "s \<in> {-1, 0, 1}" "0 \<le> d"
  shows "rel s (if d < z3 r * s then Vec3 cx cy (d * s) else r)
               (if d < snd b then ((cx, cy), d) else b)"
proof (cases "d < snd b")
  case True
  have "z3 r * s = snd b" using assms(1) unfolding rel_def by blast
  then have "s \<noteq> 0" using True assms(3) by auto
  then have "s * s = 1" using assms(2) by auto
  then have a: "d * s * s = d" by (simp add: mult.assoc)
  have b: "d * s = s * d" by (rule mult.commute)
  have e: "z3 r * s = snd b" using assms(1) unfolding rel_def by blast
  have c: "d < z3 r * s" unfolding e by (rule True)
  have "rel s (Vec3 cx cy (d * s)) ((cx, cy), d)"
    unfolding rel_def using a b by simp
  then show ?thesis using True c by simp
next
  case False
  have e: "z3 r * s = snd b" using assms(1) unfolding rel_def by blast
  have "\<not> d < z3 r * s" unfolding e by (rule False)
  then show ?thesis using False assms(1) by simp
qed

lemma jfa_sample_cases:
  fixes source step p d
  defines "q \<equiv> (fst p + fst d * step, snd p + snd d * step)"
  defines "n \<equiv> tex_data source q"
  defines "seed \<equiv> (glsl_int (vx n), glsl_int (vy n))"
  shows "jfa_sample source step p s r d =
     (if \<not> in_bounds source q then r
      else if vz n = 0 then r
      else if s \<noteq> sgn (vz n)
        then (if euclid p q < z3 r * s
              then Vec3 (of_int (fst q)) (of_int (snd q)) (euclid p q * s) else r)
      else if seed \<noteq> q
        then (if euclid p seed < z3 r * s then Vec3 (vx n) (vy n) (euclid p seed * s) else r)
      else r)"
proof -
  have inb: "(fst q < tex_width source \<and> fst q \<ge> 0 \<and> snd q < tex_height source \<and> snd q \<ge> 0)
      = in_bounds source q"
    by (auto simp: in_bounds_def)
  have l1: "glsl_length (of_int (fst p - fst q), of_int (snd p - snd q)) = euclid p q"
    by (rule glsl_length_euclid)
  have l2: "glsl_length (of_int (fst p - glsl_int (vx n)), of_int (snd p - glsl_int (vy n)))
      = euclid p seed"
    using glsl_length_euclid[of p seed] by (simp add: seed_def)
  have "jfa_sample source step p s r d =
     (if in_bounds source q then
        (if z3 (rgb (texelFetch source q)) \<noteq> 0 then
           (if s \<noteq> glsl_sign (z3 (rgb (texelFetch source q))) then
              (if glsl_length (of_int (fst p - fst q), of_int (snd p - snd q)) < z3 r * s
               then Vec3 (of_int (fst q)) (of_int (snd q))
                  (glsl_length (of_int (fst p - fst q), of_int (snd p - snd q)) * s)
               else r)
            else if (glsl_int (x3 (rgb (texelFetch source q))),
                     glsl_int (y3 (rgb (texelFetch source q)))) \<noteq> q then
              (if glsl_length (of_int (fst p - glsl_int (x3 (rgb (texelFetch source q)))),
                               of_int (snd p - glsl_int (y3 (rgb (texelFetch source q)))))
                    < z3 r * s
               then Vec3 (x3 (rgb (texelFetch source q))) (y3 (rgb (texelFetch source q)))
                  (glsl_length (of_int (fst p - glsl_int (x3 (rgb (texelFetch source q)))),
                               of_int (snd p - glsl_int (y3 (rgb (texelFetch source q))))) * s)
               else r)
            else r)
         else r)
      else r)"
    unfolding jfa_sample_def Let_def q_def[symmetric] inb ..
  also have "\<dots> = (if \<not> in_bounds source q then r
      else if vz n = 0 then r
      else if s \<noteq> sgn (vz n)
        then (if euclid p q < z3 r * s
              then Vec3 (of_int (fst q)) (of_int (snd q)) (euclid p q * s) else r)
      else if seed \<noteq> q
        then (if euclid p seed < z3 r * s then Vec3 (vx n) (vy n) (euclid p seed * s) else r)
      else r)"
  proof (cases "in_bounds source q")
    case True
    then have t: "rgb (texelFetch source q) = Vec3 (vx n) (vy n) (vz n)"
      by (simp add: texelFetch_def rgb_def n_def)
    show ?thesis unfolding t vec3.sel l1 l2 glsl_sign_sgn using True
      by (simp add: seed_def)
  next
    case False
    then show ?thesis by simp
  qed
  finally show ?thesis .
qed

lemma spec_candidate_cases:
  fixes source step p d
  defines "q \<equiv> (fst p + fst d * step, snd p + snd d * step)"
  defines "n \<equiv> tex_data source q"
  defines "seed \<equiv> (glsl_int (vx n), glsl_int (vy n))"
  shows "spec_candidate source step p s d =
     (if \<not> in_bounds source q then None
      else if vz n = 0 then None
      else if s \<noteq> sgn (vz n) then Some ((of_int (fst q), of_int (snd q)), euclid p q)
      else if seed \<noteq> q then Some ((vx n, vy n), euclid p seed)
      else None)"
  unfolding spec_candidate_def Let_def q_def[symmetric] n_def[symmetric] seed_def[symmetric]
  by auto

lemma jfa_sample_rel:
  assumes r: "rel s r b" and s: "s \<in> {-1, 0, 1}"
  shows "rel s (jfa_sample source step p s r d)
           (spec_keep b (spec_candidate source step p s d))"
proof -
  define q where "q = (fst p + fst d * step, snd p + snd d * step)"
  define n where "n = tex_data source q"
  define seed where "seed = (glsl_int (vx n), glsl_int (vy n))"
  note u1 = rel_update[OF r s euclid_nonneg, of p q "of_int (fst q)" "of_int (snd q)"]
  note u2 = rel_update[OF r s euclid_nonneg, of p seed "vx n" "vy n"]
  have k: "spec_keep b None = b"
    "\<And>c. spec_keep b (Some c) = (if snd c < snd b then c else b)"
    by (simp_all add: spec_keep_def)
  have "rel s
     (if \<not> in_bounds source q then r
      else if vz n = 0 then r
      else if s \<noteq> sgn (vz n)
        then (if euclid p q < z3 r * s
              then Vec3 (of_int (fst q)) (of_int (snd q)) (euclid p q * s) else r)
      else if seed \<noteq> q
        then (if euclid p seed < z3 r * s then Vec3 (vx n) (vy n) (euclid p seed * s) else r)
      else r)
     (spec_keep b
       (if \<not> in_bounds source q then None
        else if vz n = 0 then None
        else if s \<noteq> sgn (vz n) then Some ((of_int (fst q), of_int (snd q)), euclid p q)
        else if seed \<noteq> q then Some ((vx n, vy n), euclid p seed)
        else None))"
  proof -
    consider (out) "\<not> in_bounds source q"
      | (zero) "in_bounds source q" "vz n = 0"
      | (cross) "in_bounds source q" "vz n \<noteq> 0" "s \<noteq> sgn (vz n)"
      | (relay) "in_bounds source q" "vz n \<noteq> 0" "s = sgn (vz n)" "seed \<noteq> q"
      | (own) "in_bounds source q" "vz n \<noteq> 0" "s = sgn (vz n)" "seed = q"
      by blast
    then show ?thesis
    proof cases
      case out
      then show ?thesis using r by (simp add: k)
    next
      case zero
      then show ?thesis using r by (simp add: k)
    next
      case cross
      then show ?thesis using u1 by (simp add: k)
    next
      case relay
      then show ?thesis using u2 by (simp add: k)
    next
      case own
      then show ?thesis using r by (simp add: k)
    qed
  qed
  then show ?thesis
    unfolding jfa_sample_cases spec_candidate_cases q_def n_def seed_def .
qed

lemma foldl_jfa_sample_rel:
  assumes "s \<in> {-1, 0, 1}"
  shows "rel s r b \<Longrightarrow>
    rel s (foldl (jfa_sample source step p s) r ds)
          (foldl spec_keep b (map (spec_candidate source step p s) ds))"
proof (induction ds arbitrary: r b)
  case Nil
  then show ?case by simp
next
  case (Cons d ds)
  from jfa_sample_rel[OF Cons.prems assms]
  show ?case by (simp add: Cons.IH)
qed

lemma sgn_cases: "sgn (x::real) \<in> {-1, 0, 1}"
  by (simp add: sgn_real_def)

lemma jfa_fragment_refines:
  assumes "\<not> maskValue < 0.5"
  shows "jfa_fragment source maskValue step p = Some (spec_jfa_record source step p)"
proof -
  let ?r0 = "rgb (texelFetch source p)"
  let ?s = "sgn (z3 ?r0)"
  let ?b0 = "((x3 ?r0, y3 ?r0), \<bar>z3 ?r0\<bar>)"
  have r0: "rel ?s ?r0 ?b0"
    by (simp add: rel_def sgn_real_def)
  from foldl_jfa_sample_rel[OF sgn_cases r0, of source step p jfa_offsets]
  show ?thesis using assms
    by (simp add: jfa_fragment_def spec_jfa_record_def Let_def glsl_sign_sgn jfa_offsets_eq
        rel_def rgb_def)
qed

lemma Min_insert_min:
  fixes a b :: real
  assumes "finite S"
  shows "Min (insert (min a b) S) = Min (insert b (insert a S))"
proof (cases "S = {}")
  case True
  then show ?thesis by (simp add: min.commute)
next
  case False
  then show ?thesis using assms
    by (simp add: min.commute min.left_commute)
qed

lemma foldl_spec_keep_Min:
  "snd (foldl spec_keep b cs) = Min (insert (snd b) (snd ` {c. Some c \<in> set cs}))"
proof (induction cs arbitrary: b)
  case Nil
  then show ?case by simp
next
  case (Cons c cs)
  have fin: "finite (snd ` {c. Some c \<in> set cs})"
  proof -
    have "{c. Some c \<in> set cs} = the ` (set cs - {None})" by force
    then show ?thesis by simp
  qed
  show ?case
  proof (cases c)
    case None
    then have "spec_keep b c = b" "{c'. Some c' \<in> set (c # cs)} = {c. Some c \<in> set cs}"
      by (auto simp: spec_keep_def)
    then show ?thesis by (simp add: Cons.IH)
  next
    case (Some a)
    have eq: "{c'. Some c' \<in> set (c # cs)} = insert a {c. Some c \<in> set cs}"
      using Some by auto
    have "snd (spec_keep b c) = min (snd a) (snd b)"
      using Some by (simp add: spec_keep_def min_def)
    then have m: "Min (insert (snd (spec_keep b c)) (snd ` {c. Some c \<in> set cs})) =
          Min (insert (snd b) (insert (snd a) (snd ` {c. Some c \<in> set cs})))"
      using Min_insert_min[OF fin] by simp
    have "snd (foldl spec_keep b (c # cs)) = snd (foldl spec_keep (spec_keep b c) cs)"
      by simp
    also have "\<dots> = Min (insert (snd (spec_keep b c)) (snd ` {c. Some c \<in> set cs}))"
      by (rule Cons.IH)
    also have "\<dots> = Min (insert (snd b) (insert (snd a) (snd ` {c. Some c \<in> set cs})))"
      by (rule m)
    also have "\<dots> = Min (insert (snd b) (snd ` {c'. Some c' \<in> set (c # cs)}))"
      unfolding eq by simp
    finally show ?thesis .
  qed
qed

lemma spec_jfa_record_marker:
  "vz (spec_jfa_record source step p) =
     sgn (vz (texelFetch source p)) *
       Min (insert \<bar>vz (texelFetch source p)\<bar>
             (snd ` {c. Some c \<in> set (map (spec_candidate source step p
                                             (sgn (vz (texelFetch source p))))
                                         spec_neighbours)}))"
  by (simp add: spec_jfa_record_def Let_def foldl_spec_keep_Min del: set_map)

text \<open>
  C2: for a pixel inside the coverage mask the pass writes the record the specification
  describes. The 8 neighbours at offsets of \<open>step\<close> are examined in the shader's order;
  a neighbour outside the buffer or with a zero marker gives no candidate; a neighbour
  of the other sign gives its own coordinate at the Euclidean distance to it; a neighbour
  of the same sign whose stored seed is not its own coordinate gives that seed at the
  distance to it; a candidate replaces the running result only when strictly nearer. The
  marker written is the pixel's original sign times the smallest of its own magnitude
  and the candidates' distances.
\<close>

theorem jfa_fragment_keeps_nearest:
  assumes "\<not> maskValue < 0.5"
  shows "jfa_fragment source maskValue step p = Some (spec_jfa_record source step p)
     \<and> vz (spec_jfa_record source step p) =
         sgn (vz (texelFetch source p)) *
           Min (insert \<bar>vz (texelFetch source p)\<bar>
                 (snd ` {c. Some c \<in> set (map (spec_candidate source step p
                                                 (sgn (vz (texelFetch source p))))
                                             spec_neighbours)}))"
  using jfa_fragment_refines[OF assms] spec_jfa_record_marker by simp

theorem jfa_fragment_keeps_nearest_witness:
  "\<not> (1::real) < 0.5 \<and> jfa_fragment two_texels 1 1 (0, 0) = Some (Vec4 1 0 1 1)"
proof -
  have h: "\<not> (1::real) < 0.5" by simp
  have e: "spec_jfa_record two_texels 1 (0, 0) = Vec4 1 0 1 1"
    by (simp add: spec_jfa_record_def spec_neighbours_def spec_candidate_def spec_keep_def
        texelFetch_def in_bounds_def two_texels_def euclid_def glsl_int_def Let_def)
  from jfa_fragment_keeps_nearest[OF h, of two_texels 1 "(0, 0)"] e h
  show ?thesis by simp
qed

lemma jfa_fragment_outside_mask:
  "maskValue < 0.5 \<Longrightarrow> jfa_fragment source maskValue step p = None"
  by (simp add: jfa_fragment_def Let_def)

lemma jfa_pass_outside_mask:
  assumes "in_bounds target p" "scissor p" "mask_sample m target p < 0.5"
  shows "tex_data (jfa_pass scissor source m step target) p = Vec4 0 0 0 0"
  using assms
  by (simp add: jfa_pass_def tex_data_render_pass fullscreen_def jfa_fragment_outside_mask)

text \<open>
  C6 at a concrete input. The source holds two seeds, the mask is zero everywhere, the
  target holds older data. The fragment of pixel (0, 0) is discarded, and after the pass
  the target's texel is the cleared value, not the source's record
  \<open>(1/2, 1/2, 10000)\<close>.
\<close>

theorem jfa_pass_discards_outside_mask:
  "mask_sample zero_mask stale_target (0, 0) = 0
   \<and> jfa_fragment two_texels (mask_sample zero_mask stale_target (0, 0)) 1 (0, 0) = None
   \<and> tex_data two_texels (0, 0) = Vec4 (1/2) (1/2) 10000 1
   \<and> tex_data (jfa_pass fullscreen two_texels zero_mask 1 stale_target) (0, 0) = Vec4 0 0 0 0"
proof -
  have m: "mask_sample zero_mask stale_target (0, 0) = 0"
    by (simp add: mask_sample_def zero_mask_def texture2D_texel_def Let_def)
  have b: "in_bounds stale_target (0, 0)" by (simp add: in_bounds_def stale_target_def)
  have f: "fullscreen (0, 0)" by (simp add: fullscreen_def)
  have "tex_data (jfa_pass fullscreen two_texels zero_mask 1 stale_target) (0, 0) = Vec4 0 0 0 0"
    using b f m by (intro jfa_pass_outside_mask) simp_all
  then show ?thesis using m by (simp add: jfa_fragment_outside_mask two_texels_def)
qed

subsection \<open>The compositor\<close>

lemma smooth_poly_bounds:
  fixes t :: real
  assumes "0 \<le> t" "t \<le> 1"
  shows "0 \<le> t * t * (3 - 2 * t)" "t * t * (3 - 2 * t) \<le> 1"
proof -
  show "0 \<le> t * t * (3 - 2 * t)" using assms by simp
  have "1 - t * t * (3 - 2 * t) = (1 - t) * (1 - t) * (1 + 2 * t)" by algebra
  moreover have "0 \<le> (1 - t) * (1 - t) * (1 + 2 * t)" using assms by simp
  ultimately show "t * t * (3 - 2 * t) \<le> 1" by linarith
qed

lemma smoothstep_bounds:
  "0 \<le> glsl_smoothstep e0 e1 x" "glsl_smoothstep e0 e1 x \<le> 1"
  unfolding glsl_smoothstep_def Let_def
  by (rule smooth_poly_bounds; simp add: glsl_clamp_def)+

lemma outline_val_bounds: "0 \<le> outline_val th d" "outline_val th d \<le> 1"
  unfolding outline_val_def Let_def
  using smoothstep_bounds by (simp_all add: mult_le_one)

lemma effect_opacity_eq:
  "vz s \<noteq> 0 \<Longrightarrow> effect_opacity th ins col s = outline_val th (vz s * of_int ins)"
  using outline_val_bounds[of th "vz s * of_int ins"]
  by (auto simp: effect_opacity_def effect_fragment_def Let_def glsl_clamp_def)

lemma outline_val_peak: "- 1/2 \<le> d \<Longrightarrow> d \<le> th - 1/2 \<Longrightarrow> outline_val th d = 1"
  by (simp add: outline_val_def glsl_smoothstep_def glsl_clamp_def)

lemma outline_val_outside: "th + 1/2 \<le> d \<Longrightarrow> outline_val th d = 0"
  by (simp add: outline_val_def glsl_smoothstep_def glsl_clamp_def)

text \<open>
  C7, as the claim states it, fails at the distance 5: with thickness 5 the first factor
  is at the middle of its edge there, and the opacity is 1/2, not close to 1.
\<close>

theorem effect_opacity_at_thickness_is_half:
  "effect_opacity 5 (set_inside False) (Vec3 1 0 0) (Vec4 0 0 5 1) = 1/2
   \<and> \<not> \<bar>effect_opacity 5 (set_inside False) (Vec3 1 0 0) (Vec4 0 0 5 1) - 1\<bar> < 1/4"
  by (simp add: effect_opacity_def effect_fragment_def set_inside_def outline_val_def
      glsl_smoothstep_def glsl_clamp_def)

text \<open>
  C7, amended: for a pixel with a nonzero marker the opacity is the product
  \<open>smoothstep (thickness + 0.5) (thickness - 0.5) dist * smoothstep (-1.5) (-0.5) dist\<close>
  with \<open>dist\<close> the marker times the inside sign; with thickness 5 a pixel at the signed
  distance 5 has the opacity exactly 1/2 (the middle of the outer edge), the peak 1 is
  reached at every nonzero distance from -0.5 to 4.5, and a pixel at the distance 20
  has the opacity exactly 0.
\<close>

theorem effect_opacity_ring:
  "(vz s \<noteq> 0 \<longrightarrow>
      effect_opacity thickness inside color s =
        glsl_smoothstep (thickness + 0.5) (thickness - 0.5) (vz s * of_int inside) *
        glsl_smoothstep (- 1.5) (- 0.5) (vz s * of_int inside))
   \<and> effect_opacity 5 (set_inside False) color (Vec4 x y 5 1) = 1/2
   \<and> (- 1/2 \<le> d \<and> d \<le> 9/2 \<and> d \<noteq> 0 \<longrightarrow>
        effect_opacity 5 (set_inside False) color (Vec4 x y d 1) = 1)
   \<and> effect_opacity 5 (set_inside False) color (Vec4 x y 20 1) = 0"
proof (intro conjI impI)
  assume "vz s \<noteq> 0"
  then show "effect_opacity thickness inside color s =
        glsl_smoothstep (thickness + 0.5) (thickness - 0.5) (vz s * of_int inside) *
        glsl_smoothstep (- 1.5) (- 0.5) (vz s * of_int inside)"
    by (simp add: effect_opacity_eq outline_val_def Let_def)
next
  show "effect_opacity 5 (set_inside False) color (Vec4 x y 5 1) = 1/2"
    by (simp add: effect_opacity_eq set_inside_def outline_val_def glsl_smoothstep_def
        glsl_clamp_def)
next
  assume "- 1/2 \<le> d \<and> d \<le> 9/2 \<and> d \<noteq> 0"
  then show "effect_opacity 5 (set_inside False) color (Vec4 x y d 1) = 1"
    using outline_val_peak[of d 5] by (simp add: effect_opacity_eq set_inside_def)
next
  show "effect_opacity 5 (set_inside False) color (Vec4 x y 20 1) = 0"
    using outline_val_outside[of 5 20] by (simp add: effect_opacity_eq set_inside_def)
qed

theorem effect_opacity_ring_witness:
  "vz (Vec4 0 0 3 1) \<noteq> 0
   \<and> effect_opacity 5 (set_inside False) (Vec3 1 0 0) (Vec4 0 0 3 1) =
       glsl_smoothstep (5 + 0.5) (5 - 0.5) (vz (Vec4 0 0 3 1) * of_int (set_inside False)) *
       glsl_smoothstep (- 1.5) (- 0.5) (vz (Vec4 0 0 3 1) * of_int (set_inside False))
   \<and> (- 1/2 \<le> (3::real) \<and> (3::real) \<le> 9/2 \<and> (3::real) \<noteq> 0)
   \<and> effect_opacity 5 (set_inside False) (Vec3 1 0 0) (Vec4 0 0 3 1) = 1
   \<and> effect_opacity 5 (set_inside False) (Vec3 1 0 0) (Vec4 0 0 20 1) = 0"
  using effect_opacity_ring[of "Vec4 0 0 3 1" 5 "set_inside False" "Vec3 1 0 0" 0 0 3]
  by simp

subsection \<open>The scissor region\<close>

text \<open>
  C8: on targets sized by \<open>setSize w h\<close> under a nonzero pixel ratio, the half-extent
  render computes is \<open>max (|center.x - offset.x| * w) (|center.y - offset.y| * h) + thickness\<close>,
  with \<open>center\<close> the projected centre of the bounding sphere and \<open>offset\<close> the projection
  of the centre moved by the radius along the camera's X and Y, both in normalized
  screen coordinates, and \<open>w\<close>, \<open>h\<close> the logical size; the scissor rectangle is the
  square of that half-extent around the centre in logical pixels.
\<close>

theorem scissor_half_extent:
  assumes "pixelRatio \<noteq> 0"
  shows "render_scissor cam sph (fst (setSize w h pixelRatio)) (snd (setSize w h pixelRatio))
           pixelRatio thickness =
     (let delta = max (\<bar>fst (screen_center cam sph) - fst (screen_offset cam sph)\<bar> * w)
                      (\<bar>snd (screen_center cam sph) - snd (screen_offset cam sph)\<bar> * h)
                  + thickness
      in (delta,
          (fst (screen_center cam sph) * w - delta, snd (screen_center cam sph) * h - delta,
           delta * 2, delta * 2)))"
  using assms
  by (simp add: render_scissor_def setSize_def screen_center_def screen_offset_def
      multiplyScalar_def Let_def)

theorem scissor_half_extent_witness:
  "(2::real) \<noteq> 0
   \<and> render_scissor demo_camera unit_sphere (fst (setSize 800 600 2)) (snd (setSize 800 600 2))
        2 30 = (130, (270, 170, 260, 260))"
proof -
  have h: "(2::real) \<noteq> 0" by simp
  have c: "screen_center demo_camera unit_sphere = (1/2, 1/2)"
    by (simp add: screen_center_def project_def demo_camera_def unit_sphere_def)
  have o: "screen_offset demo_camera unit_sphere = (5/8, 5/8)"
    by (simp add: screen_offset_def demo_camera_def unit_sphere_def Let_def)
  from scissor_half_extent[OF h, of demo_camera unit_sphere 800 600 30]
  show ?thesis unfolding c o by (simp add: Let_def)
qed

subsection \<open>Renderer and scene state\<close>

lemma run_returned:
  "run ss throws k w = (Returned, w') \<Longrightarrow> w' = foldl apply_step w ss"
  by (induction ss throws k w rule: run.induct) (auto split: if_splits)

lemma run_no_throw:
  "run ss (\<lambda>_. False) k w = (Returned, foldl apply_step w ss)"
proof (induction ss arbitrary: k w)
  case Nil
  show ?case by simp
next
  case (Cons a ss)
  then show ?case by (cases a) simp_all
qed

lemma foldl_replicate_Call [simp]: "foldl apply_step w (replicate n Call) = w"
  by (induction n) simp_all

lemma traverse_hide_eq:
  "distinct ns \<Longrightarrow>
   traverse_hide d ns (ov, vis) =
     (ov @ map (\<lambda>n. (n, vis n)) (filter d ns),
      (\<lambda>n. if n \<in> set ns \<and> d n then False else vis n))"
proof (induction ns arbitrary: ov vis)
  case Nil
  then show ?case by simp
next
  case (Cons a ns)
  have m: "map (\<lambda>n. (n, (vis(a := False)) n)) (filter d ns) =
      map (\<lambda>n. (n, vis n)) (filter d ns)"
    using Cons.prems by (intro map_cong) auto
  show ?case using Cons.prems by (auto simp: Cons.IH m)
qed

lemma traverse_show_eq:
  "traverse_show d ns vis = (\<lambda>n. if n \<in> set ns \<and> d n then True else vis n)"
  by (induction ns arbitrary: vis) auto

lemma restore_visible_eq:
  "restore_visible (map (\<lambda>n. (n, f n)) ns) vis = (\<lambda>n. if n \<in> set ns then f n else vis n)"
  by (induction ns arbitrary: vis) auto

lemma jf_normal_final:
  assumes "distinct (scene_nodes env)"
  shows "autoClear (foldl apply_step w (jf_body env fp)) = autoClear w"
    "clearColor (foldl apply_step w (jf_body env fp)) = clearColor w"
    "clearAlpha (foldl apply_step w (jf_body env fp)) = clearAlpha w"
    "scissorTest (foldl apply_step w (jf_body env fp)) = False"
    "n \<in> set (scene_nodes env) \<Longrightarrow>
       visible (foldl apply_step w (jf_body env fp)) n = visible w n"
  using assms
  by (simp_all add: jf_body_def hide_scene_def show_selected_def restore_scene_def
      traverse_hide_eq[where ov = "[]", simplified] traverse_show_eq restore_visible_eq)

lemma run_preserves:
  assumes "\<And>f w. Update f \<in> set ss \<Longrightarrow> P w \<Longrightarrow> P (f w)" "P w"
  shows "P (snd (run ss throws k w))"
  using assms
proof (induction ss arbitrary: k w)
  case Nil
  then show ?case by simp
next
  case (Cons a ss)
  show ?case
  proof (cases a)
    case (Update f)
    have "P (f w)" using Cons.prems Update by simp
    then show ?thesis using Cons.IH[of "f w" k] Cons.prems(1) Update by simp
  next
    case Call
    then show ?thesis using Cons.IH[of w "Suc k"] Cons.prems by simp
  qed
qed

lemma ol_prefix_preserves:
  "globals_eq (snd (run ol_prefix throws k w)) w"
  by (rule run_preserves[where P = "\<lambda>x. globals_eq x w"])
     (auto simp: ol_prefix_def globals_eq_def)

lemma ol_prefix_saved:
  assumes "run ol_prefix throws k w = (Returned, w')"
  shows "savedAutoClear w' = autoClear w \<and> savedClearColor w' = clearColor w \<and>
         savedClearAlpha w' = clearAlpha w"
  using run_returned[OF assms] by (simp add: ol_prefix_def)

lemma ol_try_finally:
  "globals_eq (snd (try_finally (ol_try n) ol_finally throws k w))
     (w\<lparr>autoClear := savedAutoClear w, clearColor := savedClearColor w,
        clearAlpha := savedClearAlpha w\<rparr>)"
proof -
  let ?P = "\<lambda>x. scissorTest x = scissorTest w \<and> visible x = visible w \<and>
     savedAutoClear x = savedAutoClear w \<and> savedClearColor x = savedClearColor w \<and>
     savedClearAlpha x = savedClearAlpha w"
  have "?P (snd (run (ol_try n) throws k w))"
    by (rule run_preserves[where P = ?P]) (auto simp: ol_try_def split: if_splits)
  then show ?thesis
    by (cases "run (ol_try n) throws k w")
       (simp add: try_finally_def globals_eq_def ol_finally_def)
qed

lemma OutlineEffect_render_state_restores:
  "globals_eq (snd (OutlineEffect_render_state env n throws w)) w"
proof (cases "selection_active env (visible w)")
  case False
  then show ?thesis by (simp add: OutlineEffect_render_state_def globals_eq_def)
next
  case True
  obtain out w' where r: "run ol_prefix throws 0 w = (out, w')"
    by (cases "run ol_prefix throws 0 w") auto
  have g: "globals_eq w' w" using ol_prefix_preserves[of throws 0 w] r by simp
  show ?thesis
  proof (cases out)
    case Thrown
    then show ?thesis using True r g by (simp add: OutlineEffect_render_state_def)
  next
    case Returned
    from ol_prefix_saved[OF r[unfolded Returned]] ol_try_finally[of n throws 3 w'] g
    show ?thesis using True r Returned
      by (simp add: OutlineEffect_render_state_def globals_eq_def)
  qed
qed

lemma JumpFloodEffect_render_returned:
  assumes d: "distinct (scene_nodes env)"
    and r: "fst (JumpFloodEffect_render env fp throws w) = Returned"
  shows "autoClear (snd (JumpFloodEffect_render env fp throws w)) = autoClear w
     \<and> clearColor (snd (JumpFloodEffect_render env fp throws w)) = clearColor w
     \<and> clearAlpha (snd (JumpFloodEffect_render env fp throws w)) = clearAlpha w
     \<and> (\<forall>n \<in> set (scene_nodes env).
          visible (snd (JumpFloodEffect_render env fp throws w)) n = visible w n)
     \<and> scissorTest (snd (JumpFloodEffect_render env fp throws w)) =
          (if selection_active env (visible w) then False else scissorTest w)"
proof (cases "selection_active env (visible w)")
  case False
  then show ?thesis by (simp add: JumpFloodEffect_render_def)
next
  case True
  then have e: "JumpFloodEffect_render env fp throws w = run (jf_body env fp) throws 0 w"
    by (simp add: JumpFloodEffect_render_def)
  obtain w' where "run (jf_body env fp) throws 0 w = (Returned, w')"
    using r e by (cases "run (jf_body env fp) throws 0 w") auto
  then have "JumpFloodEffect_render env fp throws w =
      (Returned, foldl apply_step w (jf_body env fp))"
    using run_returned e by metis
  then show ?thesis using jf_normal_final[OF d, where w = w and fp = fp] True by simp
qed

text \<open>
  C4, as the claim states it, fails for \<open>JumpFloodEffect.render\<close>: the method turns the
  scissor test on and ends with \<open>setScissorTest(false)\<close>, whatever the flag was. A call
  that returns normally from a state with the scissor test on leaves it off.
\<close>

theorem jump_flood_render_leaves_scissor_off:
  "scissorTest demo_jf_frame
   \<and> fst (JumpFloodEffect_render demo_env 2 (\<lambda>k. False) demo_jf_frame) = Returned
   \<and> \<not> scissorTest (snd (JumpFloodEffect_render demo_env 2 (\<lambda>k. False) demo_jf_frame))"
  by (simp add: JumpFloodEffect_render_def run_no_throw selection_active_def demo_env_def
      demo_jf_frame_def jf_body_def)

text \<open>
  The method has no \<open>try\<close>: when the draw of the mask throws (the fourth call), the
  exception leaves the clear colour at \<open>(0, 0)\<close> and the scene hidden but for the selected
  object: node 3 was visible and is hidden, node 2 was hidden and is visible.
\<close>

lemma jump_flood_render_throw_leaks:
  "JumpFloodEffect_render demo_env 2 (\<lambda>k. k = 3) demo_jf_frame =
     (Thrown, demo_jf_frame\<lparr>clearColor := 0, clearAlpha := 0, visible := (\<lambda>n. n \<noteq> 3),
        originalAutoClear := True, originalClearColor := 16777215,
        originalClearAlpha := 1, originalVisible := [(1, True), (2, False), (3, True)]\<rparr>)"
  by (simp add: JumpFloodEffect_render_def selection_active_def demo_env_def
      demo_jf_frame_def jf_body_def hide_scene_def show_selected_def fun_eq_iff)

text \<open>
  C4, amended: when \<open>JumpFloodEffect.render\<close> returns (the no-op exit and the normal
  end), the clear colour and alpha, the auto-clear flag and the visibility of every node
  of the scene are what they were at the start of the call; the scissor test is not
  restored: it is unchanged on the no-op exit and off after the pipeline ran. On every
  exit of \<open>OutlineEffect.render\<close>, thrown exceptions included, the clear colour and
  alpha, the auto-clear flag, the scissor test and every visibility flag are what they
  were at the start. The scene's traversal visits each node once.
\<close>

theorem render_restores_state:
  assumes "distinct (scene_nodes env)"
  shows "(fst (JumpFloodEffect_render env floodPasses throws w) = Returned \<longrightarrow>
            autoClear (snd (JumpFloodEffect_render env floodPasses throws w)) = autoClear w
          \<and> clearColor (snd (JumpFloodEffect_render env floodPasses throws w)) = clearColor w
          \<and> clearAlpha (snd (JumpFloodEffect_render env floodPasses throws w)) = clearAlpha w
          \<and> (\<forall>n \<in> set (scene_nodes env).
               visible (snd (JumpFloodEffect_render env floodPasses throws w)) n = visible w n)
          \<and> scissorTest (snd (JumpFloodEffect_render env floodPasses throws w)) =
               (if selection_active env (visible w) then False else scissorTest w))
       \<and> autoClear (snd (OutlineEffect_render_state env passes throws' u)) = autoClear u
       \<and> clearColor (snd (OutlineEffect_render_state env passes throws' u)) = clearColor u
       \<and> clearAlpha (snd (OutlineEffect_render_state env passes throws' u)) = clearAlpha u
       \<and> scissorTest (snd (OutlineEffect_render_state env passes throws' u)) = scissorTest u
       \<and> visible (snd (OutlineEffect_render_state env passes throws' u)) = visible u"
  using JumpFloodEffect_render_returned[OF assms, of floodPasses throws w]
    OutlineEffect_render_state_restores[of env passes throws' u]
  by (simp add: globals_eq_def)

theorem render_restores_state_witness:
  "distinct (scene_nodes demo_env)
   \<and> fst (JumpFloodEffect_render demo_env 2 (\<lambda>k. False) demo_jf_frame) = Returned
   \<and> autoClear (snd (JumpFloodEffect_render demo_env 2 (\<lambda>k. False) demo_jf_frame))
       = autoClear demo_jf_frame
   \<and> clearColor (snd (JumpFloodEffect_render demo_env 2 (\<lambda>k. False) demo_jf_frame))
       = clearColor demo_jf_frame
   \<and> visible (snd (JumpFloodEffect_render demo_env 2 (\<lambda>k. False) demo_jf_frame)) 3
       = visible demo_jf_frame 3
   \<and> fst (OutlineEffect_render_state demo_env 3 (\<lambda>k. k = 4) demo_ol_frame) = Thrown
   \<and> clearColor (snd (OutlineEffect_render_state demo_env 3 (\<lambda>k. k = 4) demo_ol_frame))
       = clearColor demo_ol_frame
   \<and> autoClear (snd (OutlineEffect_render_state demo_env 3 (\<lambda>k. k = 4) demo_ol_frame))
       = autoClear demo_ol_frame"
proof -
  have d: "distinct (scene_nodes demo_env)" by (simp add: demo_env_def)
  have r: "fst (JumpFloodEffect_render demo_env 2 (\<lambda>k. False) demo_jf_frame) = Returned"
    by (simp add: JumpFloodEffect_render_def run_no_throw)
  have t: "fst (OutlineEffect_render_state demo_env 3 (\<lambda>k. k = 4) demo_ol_frame) = Thrown"
    by (simp add: OutlineEffect_render_state_def selection_active_def demo_env_def
        demo_ol_frame_def ol_prefix_def ol_try_def try_finally_def)
  have m: "3 \<in> set (scene_nodes demo_env)" by (simp add: demo_env_def)
  from render_restores_state[OF d, of 2 "\<lambda>k. False" demo_jf_frame 3 "\<lambda>k. k = 4" demo_ol_frame]
  show ?thesis using d r t m by simp
qed

subsection \<open>OutlineEffect: the dilation loop and the composite\<close>

lemma dilate_pass_size [simp]:
  "tex_width (dilate_pass t) = tex_width t" "tex_height (dilate_pass t) = tex_height t"
  by (simp_all add: dilate_pass_def fullscreen_pass_def)

lemma same_size_read:
  "same_size ts \<Longrightarrow> tex_width (read_target ts a) = tex_width (maskTarget ts)
     \<and> tex_height (read_target ts a) = tex_height (maskTarget ts)"
  by (cases a) (simp_all add: same_size_def)

text \<open>
  A draw into a dilation target leaves the mask target alone and stores the dilation of
  the texture read.
\<close>

lemma write_dilate:
  assumes "same_size ts" "wr \<noteq> MaskTarget"
  shows "read_target (update_target wr (fullscreen_pass (dilate_fragment (read_target ts rd))) ts) wr
           = dilate_pass (read_target ts rd)"
    and "maskTarget (update_target wr (fullscreen_pass (dilate_fragment (read_target ts rd))) ts)
           = maskTarget ts"
    and "same_size (update_target wr (fullscreen_pass (dilate_fragment (read_target ts rd))) ts)"
  using assms same_size_read[OF assms(1), of rd]
  by (cases wr; cases rd; simp add: same_size_def dilate_pass_def fullscreen_pass_def)+

lemma dilate_loop_from:
  "1 \<le> i \<Longrightarrow> i \<le> n \<Longrightarrow> rd \<noteq> wr \<Longrightarrow> rd \<noteq> MaskTarget \<Longrightarrow> wr \<noteq> MaskTarget \<Longrightarrow>
   same_size ts \<Longrightarrow>
   dilate_loop i n rd wr ts k = (rd', ts', k') \<Longrightarrow>
   maskTarget ts' = maskTarget ts \<and>
   read_target ts' rd' = (dilate_pass ^^ nat (n - i)) (read_target ts rd) \<and>
   k' = k + nat (n - i)"
proof (induction i n rd wr ts k rule: dilate_loop.induct)
  case (1 i n readTarget writeTarget ts passes)
  show ?case
  proof (cases "i < n")
    case False
    then have "i = n" using 1(3) by simp
    then show ?thesis using 1(8) by (simp add: dilate_loop.simps)
  next
    case True
    define ts1 where
      "ts1 = update_target writeTarget
         (fullscreen_pass (dilate_fragment (read_target ts readTarget))) ts"
    have w: "read_target ts1 writeTarget = dilate_pass (read_target ts readTarget)"
      "maskTarget ts1 = maskTarget ts" "same_size ts1"
      unfolding ts1_def using write_dilate[OF 1(7) 1(6)] by simp_all
    have i0: "i \<noteq> 0" using 1(2) by simp
    have step: "dilate_loop i n readTarget writeTarget ts passes =
        dilate_loop (i + 1) n (if i = 0 then DilateA else writeTarget)
          (if i = 0 then DilateB else readTarget) ts1 (passes + 1)"
      using True by (subst dilate_loop.simps) (simp add: ts1_def)
    have ih: "maskTarget ts' = maskTarget ts1 \<and>
        read_target ts' rd' = (dilate_pass ^^ nat (n - (i + 1))) (read_target ts1 writeTarget) \<and>
        k' = passes + 1 + nat (n - (i + 1))"
      using 1(1)[OF True, folded ts1_def] 1(8)[unfolded step]
        True i0 1(2) 1(4) 1(5) 1(6) w(3)
      by simp
    have "nat (n - i) = Suc (nat (n - (i + 1)))" using True by simp
    then show ?thesis using ih w by (simp add: funpow_swap1)
  qed
qed

lemma dilate_loop_start:
  assumes n: "1 \<le> n" and sz: "same_size ts"
    and run: "dilate_loop 0 n MaskTarget DilateA ts 0 = (rd, ts', k)"
  shows "maskTarget ts' = maskTarget ts \<and>
         read_target ts' rd = (dilate_pass ^^ nat n) (maskTarget ts) \<and> k = nat n"
proof -
  define ts1 where
    "ts1 = update_target DilateA (fullscreen_pass (dilate_fragment (read_target ts MaskTarget))) ts"
  have w: "read_target ts1 DilateA = dilate_pass (read_target ts MaskTarget)"
    "maskTarget ts1 = maskTarget ts" "same_size ts1"
    unfolding ts1_def using write_dilate[OF sz, of DilateA MaskTarget] by simp_all
  have step: "dilate_loop 0 n MaskTarget DilateA ts 0 = dilate_loop 1 n DilateA DilateB ts1 1"
    using n by (subst dilate_loop.simps) (simp add: ts1_def)
  have r: "dilate_loop 1 n DilateA DilateB ts1 1 = (rd, ts', k)" using run step by simp
  from dilate_loop_from[OF _ n _ _ _ w(3) r]
  have "maskTarget ts' = maskTarget ts1 \<and>
     read_target ts' rd = (dilate_pass ^^ nat (n - 1)) (read_target ts1 DilateA) \<and>
     k = 1 + nat (n - 1)" by simp
  moreover have "nat n = Suc (nat (n - 1))" using n by simp
  ultimately show ?thesis using w by (simp add: funpow_swap1)
qed

lemma physicalThickness_ge1: "1 \<le> physicalThickness th dpr"
  by (simp add: physicalThickness_def)

lemma same_size_mask_render:
  "same_size ts \<Longrightarrow> same_size (update_target MaskTarget (mask_render sil) ts)"
  by (simp add: same_size_def mask_render_def fullscreen_pass_def)

lemma OutlineEffect_render_eq:
  assumes "same_size ts"
  shows "OutlineEffect_render th dpr color sil ts =
     (composite_fragment color
        ((dilate_pass ^^ nat (physicalThickness th dpr)) (mask_render sil (maskTarget ts)))
        (mask_render sil (maskTarget ts)),
      fst (snd (OutlineEffect_render th dpr color sil ts)),
      nat (physicalThickness th dpr))
    \<and> maskTarget (fst (snd (OutlineEffect_render th dpr color sil ts)))
        = mask_render sil (maskTarget ts)"
proof -
  define ts0 where "ts0 = update_target MaskTarget (mask_render sil) ts"
  obtain rd ts' k where run:
    "dilate_loop 0 (physicalThickness th dpr) MaskTarget DilateA ts0 0 = (rd, ts', k)"
    by (cases "dilate_loop 0 (physicalThickness th dpr) MaskTarget DilateA ts0 0") auto
  have sz: "same_size ts0" unfolding ts0_def using assms by (rule same_size_mask_render)
  have m: "maskTarget ts0 = mask_render sil (maskTarget ts)" by (simp add: ts0_def)
  have e: "OutlineEffect_render th dpr color sil ts =
      (composite_fragment color (read_target ts' rd) (maskTarget ts'), ts', k)"
    unfolding OutlineEffect_render_def Let_def ts0_def[symmetric] run by simp
  from dilate_loop_start[OF physicalThickness_ge1 sz run] m
  show ?thesis unfolding e by simp
qed

lemma composite_alpha:
  "vw (composite_fragment color dilated original p) =
     (if 1/2 \<le> vx (texture2D_texel dilated p) \<and> \<not> 1/2 \<le> vx (texture2D_texel original p)
      then 1 else 0)"
  by (simp add: composite_fragment_def glsl_step_def Let_def)

lemma texture2D_texel_in_bounds:
  "in_bounds t p \<Longrightarrow> texture2D_texel t p = tex_data t p"
  by (cases p) (simp add: texture2D_texel_def in_bounds_def clamp_int_def)

lemma dilate_fragment_ge:
  "vx (texture2D_texel t p) \<le> vx (dilate_fragment t p)"
  "vx (texture2D_texel t (fst p + 1, snd p)) \<le> vx (dilate_fragment t p)"
  "vx (texture2D_texel t (fst p - 1, snd p)) \<le> vx (dilate_fragment t p)"
  "vx (texture2D_texel t (fst p, snd p + 1)) \<le> vx (dilate_fragment t p)"
  "vx (texture2D_texel t (fst p, snd p - 1)) \<le> vx (dilate_fragment t p)"
  by (simp_all add: dilate_fragment_def Let_def)

lemma dilate_fragment_Max:
  "vx (dilate_fragment t p) = Max (set (map (\<lambda>q. vx (texture2D_texel t q)) (p # neighbours4 p)))"
  by (simp add: dilate_fragment_def Let_def neighbours4_def max.assoc max.commute
      max.left_commute)

lemma tex_data_dilate_pass [simp]: "tex_data (dilate_pass t) = dilate_fragment t"
  by (simp add: dilate_pass_def fullscreen_pass_def)

lemma in_bounds_dilate_pass [simp]: "in_bounds (dilate_pass t) p = in_bounds t p"
  by (simp add: in_bounds_def)

lemma in_bounds_funpow_dilate [simp]: "in_bounds ((dilate_pass ^^ n) t) p = in_bounds t p"
  by (induction n) simp_all

lemma funpow_dilate_ge:
  assumes "in_bounds t p"
  shows "vx (tex_data (dilate_pass t) p) \<le> vx (tex_data ((dilate_pass ^^ Suc n) t) p)"
proof (induction n)
  case 0
  show ?case by simp
next
  case (Suc n)
  have "in_bounds ((dilate_pass ^^ Suc n) t) p" using assms by simp
  then have "vx (tex_data ((dilate_pass ^^ Suc n) t) p)
      \<le> vx (dilate_fragment ((dilate_pass ^^ Suc n) t) p)"
    using dilate_fragment_ge(1)[of "(dilate_pass ^^ Suc n) t" p]
    by (simp only: texture2D_texel_in_bounds)
  then show ?case using Suc by simp
qed

lemma ring_one_pixel:
  assumes p: "in_bounds t p" and q: "q \<in> set (neighbours4 p)" "in_bounds t q"
    and on: "1/2 \<le> vx (tex_data t q)"
  shows "1/2 \<le> vx (texture2D_texel ((dilate_pass ^^ Suc n) t) p)"
proof -
  have "vx (texture2D_texel t q) \<le> vx (dilate_fragment t p)"
    using q(1) dilate_fragment_ge[of t p] by (auto simp: neighbours4_def)
  then have "1/2 \<le> vx (tex_data (dilate_pass t) p)"
    using on q(2) by (simp add: texture2D_texel_in_bounds)
  also have "\<dots> \<le> vx (tex_data ((dilate_pass ^^ Suc n) t) p)"
    using p by (rule funpow_dilate_ge)
  finally show ?thesis using p by (simp add: texture2D_texel_in_bounds del: funpow.simps)
qed

lemma mask_render_texel [simp]:
  "tex_data (mask_render sil t) p = (if sil p then Vec4 1 1 1 1 else Vec4 0 0 0 1)"
  by (simp add: mask_render_def fullscreen_pass_def)

lemma in_bounds_mask_render [simp]: "in_bounds (mask_render sil t) p = in_bounds t p"
  by (simp add: mask_render_def fullscreen_pass_def in_bounds_def)

text \<open>
  C9: \<open>OutlineEffect.render\<close> draws a binary mask of the selected object (1 on its
  silhouette, 0 elsewhere), runs the dilation pass exactly \<open>N\<close> times with \<open>N\<close> the
  physical thickness, each pass the maximum of a texel and its 4 neighbours, keeps the
  original mask in its own target, and composites the dilated and the original mask: the
  outline is present at a pixel exactly when the dilated mask is set there (at least
  1/2) and the original is not.
\<close>

theorem outline_effect_pipeline:
  assumes "same_size ts"
  shows "snd (snd (OutlineEffect_render th dpr color sil ts)) = nat (physicalThickness th dpr)
     \<and> maskTarget (fst (snd (OutlineEffect_render th dpr color sil ts)))
         = mask_render sil (maskTarget ts)
     \<and> tex_data (mask_render sil (maskTarget ts)) p
         = (if sil p then Vec4 1 1 1 1 else Vec4 0 0 0 1)
     \<and> fst (OutlineEffect_render th dpr color sil ts) =
         composite_fragment color
           ((dilate_pass ^^ nat (physicalThickness th dpr)) (mask_render sil (maskTarget ts)))
           (mask_render sil (maskTarget ts))
     \<and> vw (fst (OutlineEffect_render th dpr color sil ts) p) =
         (if 1/2 \<le> vx (texture2D_texel
                ((dilate_pass ^^ nat (physicalThickness th dpr))
                   (mask_render sil (maskTarget ts))) p)
             \<and> \<not> 1/2 \<le> vx (texture2D_texel (mask_render sil (maskTarget ts)) p)
          then 1 else 0)
     \<and> vx (tex_data (dilate_pass t) p) =
         Max (set (map (\<lambda>q. vx (texture2D_texel t q)) (p # neighbours4 p)))"
proof -
  note e = OutlineEffect_render_eq[OF assms, of th dpr color sil]
  have 1: "snd (snd (OutlineEffect_render th dpr color sil ts)) = nat (physicalThickness th dpr)"
    using e by (metis snd_conv)
  have 2: "fst (OutlineEffect_render th dpr color sil ts) =
         composite_fragment color
           ((dilate_pass ^^ nat (physicalThickness th dpr)) (mask_render sil (maskTarget ts)))
           (mask_render sil (maskTarget ts))"
    using e by (metis fst_conv)
  show ?thesis
    unfolding 1 2 composite_alpha using e dilate_fragment_Max[of t p] by simp
qed

theorem outline_effect_pipeline_witness:
  "same_size demo_targets
   \<and> snd (snd (OutlineEffect_render 2 1 (Vec3 1 0 0) demo_silhouette demo_targets)) = 2
   \<and> vw (fst (OutlineEffect_render 2 1 (Vec3 1 0 0) demo_silhouette demo_targets) (0, 0)) = 0"
proof -
  have s: "same_size demo_targets" by (simp add: same_size_def demo_targets_def)
  have n: "nat (physicalThickness 2 1) = 2" by (simp add: physicalThickness_def)
  have b: "in_bounds (maskTarget demo_targets) (0, 0)"
    by (simp add: in_bounds_def demo_targets_def)
  have o: "vx (texture2D_texel (mask_render demo_silhouette (maskTarget demo_targets)) (0, 0)) = 1"
    using b by (simp add: texture2D_texel_in_bounds demo_silhouette_def)
  note w = outline_effect_pipeline[OF s, where th = 2 and dpr = 1 and color = "Vec3 1 0 0"
      and sil = demo_silhouette and p = "(0, 0)" and t = "maskTarget demo_targets"]
  have c: "snd (snd (OutlineEffect_render 2 1 (Vec3 1 0 0) demo_silhouette demo_targets))
      = nat (physicalThickness 2 1)"
    using w by (rule conjunct1)
  have a: "vw (fst (OutlineEffect_render 2 1 (Vec3 1 0 0) demo_silhouette demo_targets) (0, 0)) =
         (if 1/2 \<le> vx (texture2D_texel
                ((dilate_pass ^^ nat (physicalThickness 2 1))
                   (mask_render demo_silhouette (maskTarget demo_targets))) (0, 0))
             \<and> \<not> 1/2 \<le> vx (texture2D_texel
                  (mask_render demo_silhouette (maskTarget demo_targets)) (0, 0))
          then 1 else 0)"
    using w by blast
  show ?thesis using s c a unfolding n o by simp
qed

text \<open>
  C10: the number of dilation passes of \<open>OutlineEffect.render\<close> is
  \<open>max 1 (round (thickness * pixelRatio))\<close>, so at least one pass runs for every
  thickness and pixel ratio, and every pixel outside the silhouette that has one of its
  4 neighbours on the silhouette is on the outline: the ring is at least one physical
  pixel wide.
\<close>

theorem outline_effect_pass_count:
  assumes "same_size ts"
  shows "int (snd (snd (OutlineEffect_render th dpr color sil ts))) = max 1 (round (th * dpr))
     \<and> 1 \<le> snd (snd (OutlineEffect_render th dpr color sil ts))
     \<and> (in_bounds (maskTarget ts) p \<and> q \<in> set (neighbours4 p) \<and> in_bounds (maskTarget ts) q
          \<and> sil q \<and> \<not> sil p
        \<longrightarrow> vw (fst (OutlineEffect_render th dpr color sil ts) p) = 1)"
proof -
  note e = OutlineEffect_render_eq[OF assms, of th dpr color sil]
  let ?m = "mask_render sil (maskTarget ts)"
  have 1: "snd (snd (OutlineEffect_render th dpr color sil ts)) = nat (physicalThickness th dpr)"
    using e by (metis snd_conv)
  have 2: "fst (OutlineEffect_render th dpr color sil ts) =
         composite_fragment color ((dilate_pass ^^ nat (physicalThickness th dpr)) ?m) ?m"
    using e by (metis fst_conv)
  have ge: "1 \<le> physicalThickness th dpr" by (rule physicalThickness_ge1)
  then obtain j where j: "nat (physicalThickness th dpr) = Suc j"
    by (cases "nat (physicalThickness th dpr)") auto
  have ring: "vw (fst (OutlineEffect_render th dpr color sil ts) p) = 1"
    if a: "in_bounds (maskTarget ts) p" "q \<in> set (neighbours4 p)" "in_bounds (maskTarget ts) q"
      "sil q" "\<not> sil p"
  proof -
    have "1/2 \<le> vx (texture2D_texel ((dilate_pass ^^ Suc j) ?m) p)"
      using a by (intro ring_one_pixel[where q = q]) simp_all
    moreover have "\<not> 1/2 \<le> vx (texture2D_texel ?m p)"
      using a by (simp add: texture2D_texel_in_bounds)
    ultimately show ?thesis unfolding 2 composite_alpha j by simp
  qed
  show ?thesis using 1 ge ring by (auto simp: physicalThickness_def)
qed

theorem outline_effect_pass_count_witness:
  "same_size demo_targets
   \<and> snd (snd (OutlineEffect_render (1/10) 1 (Vec3 1 0 0) demo_silhouette demo_targets)) = 1
   \<and> vw (fst (OutlineEffect_render (1/10) 1 (Vec3 1 0 0) demo_silhouette demo_targets) (1, 0)) = 1"
proof -
  have s: "same_size demo_targets" by (simp add: same_size_def demo_targets_def)
  have r: "round ((1/10::real) * 1) = 0" by (simp add: round_def)
  have b: "in_bounds (maskTarget demo_targets) (1, 0)" "in_bounds (maskTarget demo_targets) (0, 0)"
    by (simp_all add: in_bounds_def demo_targets_def)
  have q: "(0, 0) \<in> set (neighbours4 (1, 0))" by (simp add: neighbours4_def)
  have c: "demo_silhouette (0, 0)" "\<not> demo_silhouette (1, 0)"
    by (simp_all add: demo_silhouette_def)
  from outline_effect_pass_count[OF s, of "1/10" 1 "Vec3 1 0 0" demo_silhouette "(1, 0)" "(0, 0)"]
  show ?thesis using s r b q c by simp
qed

end
